theory Spec2Isabelle
  imports Complex_Main
begin

section \<open>Machine arithmetic of the target\<close>

text \<open>
  The firmware runs on a 32-bit target: \<open>int32_t\<close>, \<open>uint32_t\<close> and \<open>size_t\<close> are 32 bits
  wide, \<open>int64_t\<close> is 64 bits wide. Integers are modelled as \<open>int\<close> (or \<open>nat\<close> for
  \<open>size_t\<close>) and every conversion or arithmetic result of a fixed width is
  reduced to that width explicitly, in two's complement.
\<close>

definition INT_MAX :: int where
  "INT_MAX = 2147483647"

definition INT_MIN :: int where
  "INT_MIN = - 2147483648"

definition int32_of :: "int \<Rightarrow> int" where
  "int32_of x = (x + 2147483648) mod 4294967296 - 2147483648"

definition uint32_of :: "int \<Rightarrow> int" where
  "uint32_of x = x mod 4294967296"

definition int64_of :: "int \<Rightarrow> int" where
  "int64_of x = (x + 9223372036854775808) mod 18446744073709551616 - 9223372036854775808"

definition size_t_of :: "int \<Rightarrow> nat" where
  "size_t_of x = nat (x mod 4294967296)"

text \<open>The quotient of C++ integer division, which truncates towards zero.\<close>

definition cdiv :: "int \<Rightarrow> int \<Rightarrow> int" where
  "cdiv a b = (if (a < 0) = (b < 0) then \<bar>a\<bar> div \<bar>b\<bar> else - (\<bar>a\<bar> div \<bar>b\<bar>))"

section \<open>The state of the filter and of the scale\<close>

text \<open>\<open>MovingAverage<int32_t, int64_t>\<close>: values are \<open>int32_t\<close>, the total is \<open>int64_t\<close>.\<close>

record MovingAverage =
  m_Values :: "int list"
  m_NumValues :: nat
  m_Size :: nat
  m_Total :: int

text \<open>\<open>enum WeightUnits\<close> of \<open>LoadCell.h\<close>.\<close>

datatype WeightUnits =
  eWuGrams | eWuKiloGrams | eWuOunces | eWuPounds | eWuNumUnits | eWuBadVal

text \<open>
  The class derives from the vendor's HX711 driver. Of the driver the model keeps
  what the class uses: \<open>read()\<close>, which delivers the next sample of the sensor
  (\<open>hx_samples\<close> is the sequence of samples the sensor delivers, \<open>hx_reads\<close> the number
  of samples read so far), and \<open>wait_ready_retry\<close> (\<open>hx_ready\<close>). \<open>set_gain\<close> and
  \<open>delay\<close> have no effect on the fields of the model.
\<close>

record LoadCell =
  hx_samples :: "nat \<Rightarrow> int"
  hx_reads :: nat
  hx_ready :: bool
  m_Gain :: nat
  m_RawTareWeight :: int
  m_IsCalibrated :: bool
  m_Offset :: real
  m_Units :: WeightUnits
  m_AverageInterval :: real
  m_UnitsScaleFactor :: real
  m_ConversionFactor :: real
  m_MovingAverage :: MovingAverage
  m_pName :: "string option"

text \<open>
  The source has no exceptions. What the model reports as a fault is an integer
  division by zero, which has no result, and a \<open>double\<close> that is an infinity or a NaN.
  A \<open>double\<close> is modelled as a \<open>real\<close>: rounding is not modelled, and a \<open>real\<close> cannot
  hold a value that is no number. \<open>NonFiniteDouble s\<close> says that the source goes on
  with the state \<open>s\<close>, one field of which holds such a value.
\<close>

datatype fault = DivideByZero | NonFiniteDouble LoadCell

section \<open>MovingAverage.h\<close>

definition MAX_SIZE :: nat where
  "MAX_SIZE = 100"

definition MIN_SIZE :: nat where
  "MIN_SIZE = 1"

definition MovingAverage_Reset :: "MovingAverage \<Rightarrow> MovingAverage" where
  "MovingAverage_Reset ma = ma\<lparr>m_Total := 0, m_NumValues := 0\<rparr>"

definition MovingAverage_SetSize :: "nat \<Rightarrow> MovingAverage \<Rightarrow> nat \<times> MovingAverage" where
  "MovingAverage_SetSize newSize0 ma =
     (let newSize = (if newSize0 < MIN_SIZE then MIN_SIZE
                     else if newSize0 > MAX_SIZE then MAX_SIZE
                     else newSize0);
          ma' = (if newSize \<noteq> m_Size ma
                 then MovingAverage_Reset (ma\<lparr>m_Size := newSize\<rparr>)
                 else ma)
      in (m_Size ma', ma'))"

text \<open>
  The constructor. The source leaves the array \<open>m_Values\<close> uninitialised; the model
  fills it with zeros.
\<close>

definition MovingAverage_new :: "nat \<Rightarrow> MovingAverage" where
  "MovingAverage_new size0 =
     snd (MovingAverage_SetSize size0
            \<lparr>m_Values = replicate MAX_SIZE 0, m_NumValues = 0, m_Size = 0, m_Total = 0\<rparr>)"

text \<open>\<open>m_NumValues++\<close> is an increment of a \<open>size_t\<close>.\<close>

definition MovingAverage_Add :: "int \<Rightarrow> MovingAverage \<Rightarrow> int \<times> MovingAverage" where
  "MovingAverage_Add val ma =
     (let total1 = int64_of (m_Total ma + val);
          n = m_NumValues ma;
          ma' = (if n < m_Size ma
                 then ma\<lparr>m_Values := (m_Values ma)[n := val],
                         m_NumValues := size_t_of (int n + 1),
                         m_Total := total1\<rparr>
                 else let idx = n mod m_Size ma;
                          oldest = m_Values ma ! idx
                      in ma\<lparr>m_Values := (m_Values ma)[idx := val],
                             m_NumValues := size_t_of (int n + 1),
                             m_Total := int64_of (total1 - oldest)\<rparr>)
      in (m_Total ma', ma'))"

text \<open>
  \<open>m_Total / std::min(m_NumValues, m_Size)\<close> divides an \<open>int64_t\<close> by a \<open>size_t\<close>;
  the quotient is converted to the value type \<open>int32_t\<close>.
\<close>

definition MovingAverage_Average :: "MovingAverage \<Rightarrow> fault + int" where
  "MovingAverage_Average ma =
     (let d = min (m_NumValues ma) (m_Size ma)
      in if d = 0 then Inl DivideByZero
         else Inr (int32_of (cdiv (m_Total ma) (int d))))"

definition MovingAverage_Total :: "MovingAverage \<Rightarrow> int" where
  "MovingAverage_Total ma = m_Total ma"

definition MovingAverage_Size :: "MovingAverage \<Rightarrow> nat" where
  "MovingAverage_Size ma = m_Size ma"

section \<open>LoadCell.h and LoadCell.cpp\<close>

definition GRAMS_PER_KILOGRAM :: real where
  "GRAMS_PER_KILOGRAM = 1000"

definition GRAMS_PER_POUND :: real where
  "GRAMS_PER_POUND = 453592 / 1000"

definition OUNCES_PER_POUND :: real where
  "OUNCES_PER_POUND = 16"

definition GRAMS_PER_OUNCE :: real where
  "GRAMS_PER_OUNCE = GRAMS_PER_POUND / OUNCES_PER_POUND"

definition UNCALIBRATED_READ_VALUE :: real where
  "UNCALIBRATED_READ_VALUE = - (9999999999 / 10)"

definition DEFAULT_AVERAGE_INTERVAL :: real where
  "DEFAULT_AVERAGE_INTERVAL = 10"

definition DEFAULT_TARE_COUNT :: nat where
  "DEFAULT_TARE_COUNT = 20"

definition DEFAULT_GAIN :: nat where
  "DEFAULT_GAIN = 128"

definition MAX_NVS_NAME_LEN :: nat where
  "MAX_NVS_NAME_LEN = 15"

text \<open>\<open>struct SaveRestoreCache\<close>, the record kept in non-volatile storage.\<close>

record SaveRestoreCache =
  cache_Gain :: nat
  cache_RawTareWeight :: int
  cache_IsCalibrated :: bool
  cache_Offset :: real
  cache_Units :: WeightUnits
  cache_AverageInterval :: real
  cache_UnitsScaleFactor :: real
  cache_ConversionFactor :: real

text \<open>
  The non-volatile storage of the \<open>Preferences\<close> library: for each namespace (the
  instance name) the record stored under the label \<open>"Saved State"\<close>, if any.
  Writes to the storage are taken to succeed.
\<close>

type_synonym NVS = "string \<Rightarrow> SaveRestoreCache option"

text \<open>
  \<open>static_cast<int32_t>\<close> of a \<open>double\<close> truncates towards zero; the model reduces the
  result to 32 bits. The constructor converts the default averaging interval, 10.0,
  to the \<open>size_t\<close> 10.
\<close>

definition double_to_int32 :: "real \<Rightarrow> int" where
  "double_to_int32 r = int32_of (if r < 0 then \<lceil>r\<rceil> else \<lfloor>r\<rfloor>)"

text \<open>The constructor, given the sensor the instance is wired to.\<close>

definition LoadCell_new :: "(nat \<Rightarrow> int) \<Rightarrow> bool \<Rightarrow> nat \<Rightarrow> LoadCell" where
  "LoadCell_new samples ready gain =
     \<lparr>hx_samples = samples, hx_reads = 0, hx_ready = ready,
      m_Gain = gain, m_RawTareWeight = 0, m_IsCalibrated = False, m_Offset = 0,
      m_Units = eWuGrams, m_AverageInterval = DEFAULT_AVERAGE_INTERVAL,
      m_UnitsScaleFactor = 1, m_ConversionFactor = 1,
      m_MovingAverage =
        MovingAverage_new (nat \<lfloor>DEFAULT_AVERAGE_INTERVAL\<rfloor>),
      m_pName = None\<rparr>"

definition ReadARawValue :: "LoadCell \<Rightarrow> int \<times> LoadCell" where
  "ReadARawValue s =
     (int32_of (hx_samples s (hx_reads s)), s\<lparr>hx_reads := hx_reads s + 1\<rparr>)"

definition ResetAverage :: "LoadCell \<Rightarrow> LoadCell" where
  "ResetAverage s = s\<lparr>m_MovingAverage := MovingAverage_Reset (m_MovingAverage s)\<rparr>"

definition IsPresent :: "LoadCell \<Rightarrow> bool \<times> LoadCell" where
  "IsPresent s =
     (if \<not> hx_ready s then (False, s)
      else let (v, s') = ReadARawValue s in (v \<noteq> 0, s'))"

definition Init :: "string option \<Rightarrow> LoadCell \<Rightarrow> bool \<times> LoadCell" where
  "Init pName s =
     (let (present, s') = IsPresent s
      in if \<not> present then (False, s')
         else case pName of
                None \<Rightarrow> (False, s')
              | Some name \<Rightarrow>
                  if name \<noteq> [] \<and> length name \<le> MAX_NVS_NAME_LEN
                  then (True, s'\<lparr>m_pName := Some name\<rparr>)
                  else (False, s'))"

definition SetGain :: "nat \<Rightarrow> LoadCell \<Rightarrow> bool \<times> LoadCell" where
  "SetGain gain s =
     (if (gain = 128 \<or> gain = 64) \<and> gain \<noteq> m_Gain s
      then let s1 = s\<lparr>m_IsCalibrated := False, m_Gain := gain\<rparr>;
               (_, s2) = ReadARawValue s1
           in (True, ResetAverage s2)
      else (False, s))"

text \<open>The \<open>for\<close> loop of \<open>ReadRawAverage\<close>, with the sum, the minimum and the maximum as accumulator.\<close>

fun ReadRawAverage_loop ::
  "nat \<Rightarrow> LoadCell \<Rightarrow> int \<times> int \<times> int \<Rightarrow> (int \<times> int \<times> int) \<times> LoadCell" where
  "ReadRawAverage_loop 0 s acc = (acc, s)"
| "ReadRawAverage_loop (Suc n) s (sm, mn, mx) =
     (let (weight, s') = ReadARawValue s
      in ReadRawAverage_loop n s'
           (int32_of (sm + weight),
            (if weight < mn then weight else mn),
            (if weight > mx then weight else mx)))"

definition LIMIT_DIVISOR :: int where
  "LIMIT_DIVISOR = 800"

text \<open>
  \<open>count\<close> is a \<open>uint16_t\<close>. The sum is an \<open>int32_t\<close> (the model wraps it around, as
  the target does); \<open>sum / count\<close> with \<open>count = 0\<close> has no result. The average is
  returned as a \<open>uint32_t\<close>.
\<close>

definition ReadRawAverage :: "nat \<Rightarrow> LoadCell \<Rightarrow> fault + (int \<times> LoadCell)" where
  "ReadRawAverage count s =
     (let (_, s1) = ReadARawValue s;
          ((sm, mn, mx), s2) = ReadRawAverage_loop count s1 (0, INT_MAX, INT_MIN)
      in if count = 0 then Inl DivideByZero
         else let avg = cdiv sm (int count);
                  upperLimit = int32_of (avg + cdiv avg LIMIT_DIVISOR);
                  lowerLimit = int32_of (avg - cdiv avg LIMIT_DIVISOR);
                  avg' = (if mx < upperLimit \<and> mn > lowerLimit then avg else 0)
              in Inr (uint32_of avg', s2))"

definition Tare :: "nat \<Rightarrow> LoadCell \<Rightarrow> fault + (bool \<times> LoadCell)" where
  "Tare count s =
     (case ReadRawAverage count s of
        Inl e \<Rightarrow> Inl e
      | Inr (tareValue, s1) \<Rightarrow>
          if tareValue \<noteq> 0
          then Inr (True, s1\<lparr>m_RawTareWeight := int32_of tareValue,
                             m_MovingAverage := MovingAverage_Reset (m_MovingAverage s1)\<rparr>)
          else Inr (False, s1))"

text \<open>
  \<open>rawCalWeight - m_RawTareWeight\<close> is computed in \<open>uint32_t\<close> and converted to
  \<open>double\<close>. Where it is zero the quotient is an infinity or a NaN: the source stores
  it as the scale factor, sets the calibrated flag and returns true. The model
  returns \<open>NonFiniteDouble\<close> with that state, whose field \<open>m_UnitsScaleFactor\<close> stands for
  the value that is no number.
\<close>

definition Calibrate_finish :: "int \<Rightarrow> real \<Rightarrow> LoadCell \<Rightarrow> fault + (bool \<times> LoadCell)" where
  "Calibrate_finish rawCalWeight cookedCalWeight s =
     (let s1 = s\<lparr>m_MovingAverage := MovingAverage_Reset (m_MovingAverage s)\<rparr>;
          delta = uint32_of (rawCalWeight - uint32_of (m_RawTareWeight s1))
      in if delta = 0 then Inl (NonFiniteDouble (s1\<lparr>m_IsCalibrated := True\<rparr>))
         else Inr (True, s1\<lparr>m_UnitsScaleFactor := cookedCalWeight / real_of_int delta,
                            m_IsCalibrated := True\<rparr>))"

definition Calibrate :: "int \<Rightarrow> real \<Rightarrow> LoadCell \<Rightarrow> fault + (bool \<times> LoadCell)" where
  "Calibrate rawCalWeight cookedCalWeight s =
     (if m_RawTareWeight s = 0 then Inr (False, s)
      else if rawCalWeight = 0
      then (case ReadRawAverage DEFAULT_TARE_COUNT s of
              Inl e \<Rightarrow> Inl e
            | Inr (raw, s1) \<Rightarrow>
                if raw = 0 then Inr (False, s1)
                else Calibrate_finish raw cookedCalWeight s1)
      else Calibrate_finish rawCalWeight cookedCalWeight s)"

fun GetBaseUnitsFactor :: "WeightUnits \<Rightarrow> real" where
  "GetBaseUnitsFactor eWuGrams = 1"
| "GetBaseUnitsFactor eWuKiloGrams = GRAMS_PER_KILOGRAM"
| "GetBaseUnitsFactor eWuOunces = GRAMS_PER_OUNCE"
| "GetBaseUnitsFactor eWuPounds = GRAMS_PER_POUND"
| "GetBaseUnitsFactor _ = 0"

definition ReadAndAverageRawWeight :: "LoadCell \<Rightarrow> fault + (int \<times> LoadCell)" where
  "ReadAndAverageRawWeight s =
     (let (v, s1) = ReadARawValue s;
          (_, ma) = MovingAverage_Add v (m_MovingAverage s1);
          s2 = s1\<lparr>m_MovingAverage := ma\<rparr>
      in case MovingAverage_Average ma of
           Inl e \<Rightarrow> Inl e
         | Inr a \<Rightarrow> Inr (a, s2))"

definition ReadWeight :: "LoadCell \<Rightarrow> fault + (real \<times> LoadCell)" where
  "ReadWeight s =
     (if m_IsCalibrated s
      then (case ReadAndAverageRawWeight s of
              Inl e \<Rightarrow> Inl e
            | Inr (avg, s1) \<Rightarrow>
                let doubleWeight = real_of_int avg
                in Inr ((doubleWeight - real_of_int (m_RawTareWeight s1))
                          * m_UnitsScaleFactor s1 - m_Offset s1, s1))
      else Inr (UNCALIBRATED_READ_VALUE, s))"

definition SetAverageInterval :: "int \<Rightarrow> LoadCell \<Rightarrow> bool \<times> LoadCell" where
  "SetAverageInterval interval s =
     (let (_, ma) = MovingAverage_SetSize (size_t_of interval) (m_MovingAverage s);
          size1 = int32_of (int (MovingAverage_Size ma))
      in (size1 = interval,
          s\<lparr>m_MovingAverage := ma, m_AverageInterval := real_of_int size1\<rparr>))"

definition SetUnits :: "WeightUnits \<Rightarrow> LoadCell \<Rightarrow> bool \<times> LoadCell" where
  "SetUnits newUnits s =
     (if newUnits \<noteq> m_Units s
      then let oldUnits = m_Units s;
               toBaseFactor = GetBaseUnitsFactor oldUnits;
               fromBaseFactor = GetBaseUnitsFactor newUnits
           in if toBaseFactor = 0 \<or> fromBaseFactor = 0 then (False, s)
              else let k = toBaseFactor / fromBaseFactor
                   in (True, s\<lparr>m_ConversionFactor := k,
                               m_Offset := m_Offset s * k,
                               m_UnitsScaleFactor := m_UnitsScaleFactor s * k,
                               m_Units := newUnits\<rparr>)
      else (True, s))"

definition SetOffset :: "real \<Rightarrow> LoadCell \<Rightarrow> LoadCell" where
  "SetOffset newOffset s = ResetAverage (s\<lparr>m_Offset := newOffset\<rparr>)"

definition currentState :: "LoadCell \<Rightarrow> SaveRestoreCache" where
  "currentState s =
     \<lparr>cache_Gain = m_Gain s, cache_RawTareWeight = m_RawTareWeight s,
      cache_IsCalibrated = m_IsCalibrated s, cache_Offset = m_Offset s,
      cache_Units = m_Units s, cache_AverageInterval = m_AverageInterval s,
      cache_UnitsScaleFactor = m_UnitsScaleFactor s,
      cache_ConversionFactor = m_ConversionFactor s\<rparr>"

definition Save :: "LoadCell \<Rightarrow> NVS \<Rightarrow> bool \<times> NVS" where
  "Save s nvs =
     (case m_pName s of
        None \<Rightarrow> (False, nvs)
      | Some name \<Rightarrow>
          if nvs name \<noteq> Some (currentState s)
          then (True, nvs(name \<mapsto> currentState s))
          else (True, nvs))"

definition Restore :: "LoadCell \<Rightarrow> NVS \<Rightarrow> bool \<times> LoadCell" where
  "Restore s nvs =
     (case m_pName s of
        None \<Rightarrow> (False, s)
      | Some name \<Rightarrow>
          (case nvs name of
             None \<Rightarrow> (False, s)
           | Some cachedState \<Rightarrow>
               let s1 = s\<lparr>m_IsCalibrated := cache_IsCalibrated cachedState\<rparr>;
                   (_, s2) = SetGain (cache_Gain cachedState) s1;
                   s3 = s2\<lparr>m_RawTareWeight := cache_RawTareWeight cachedState,
                           m_UnitsScaleFactor := cache_UnitsScaleFactor cachedState,
                           m_AverageInterval := cache_AverageInterval cachedState\<rparr>;
                   (_, ma) = MovingAverage_SetSize
                               (size_t_of (double_to_int32 (m_AverageInterval s3)))
                               (m_MovingAverage s3)
               in (True, s3\<lparr>m_MovingAverage := ma,
                           m_Offset := cache_Offset cachedState,
                           m_Units := cache_Units cachedState,
                           m_ConversionFactor := cache_ConversionFactor cachedState\<rparr>)))"

definition Reset :: "LoadCell \<Rightarrow> NVS \<Rightarrow> bool \<times> NVS" where
  "Reset s nvs =
     (case m_pName s of
        None \<Rightarrow> (False, nvs)
      | Some name \<Rightarrow> (nvs name \<noteq> None, nvs(name := None)))"

section \<open>Vocabulary of the statements\<close>

text \<open>
  The next \<open>n\<close> samples that \<open>ReadARawValue\<close> delivers from a state.
\<close>

fun drawn :: "nat \<Rightarrow> LoadCell \<Rightarrow> int list" where
  "drawn 0 s = []"
| "drawn (Suc n) s = fst (ReadARawValue s) # drawn n (snd (ReadARawValue s))"

text \<open>
  The batch of \<open>ReadRawAverage count\<close>: the \<open>count\<close> samples read after the throwaway
  one; their mean as the source computes it (the \<open>int32_t\<close> sum divided by \<open>count\<close>,
  truncating); and the test the source applies to the batch.
\<close>

definition batch :: "nat \<Rightarrow> LoadCell \<Rightarrow> int list" where
  "batch count s = drawn count (snd (ReadARawValue s))"

definition batch_mean :: "nat \<Rightarrow> LoadCell \<Rightarrow> int" where
  "batch_mean count s = cdiv (int32_of (sum_list (batch count s))) (int count)"

definition batch_accepted :: "nat \<Rightarrow> LoadCell \<Rightarrow> bool" where
  "batch_accepted count s \<longleftrightarrow>
     Max (set (batch count s))
       < int32_of (batch_mean count s + cdiv (batch_mean count s) LIMIT_DIVISOR)
     \<and> Min (set (batch count s))
       > int32_of (batch_mean count s - cdiv (batch_mean count s) LIMIT_DIVISOR)"

text \<open>
  The running minimum and maximum of the loop, from a start value.
\<close>

definition lower_of :: "int list \<Rightarrow> int \<Rightarrow> int" where
  "lower_of xs mn = fold (\<lambda>w m. if w < m then w else m) xs mn"

definition upper_of :: "int list \<Rightarrow> int \<Rightarrow> int" where
  "upper_of xs mx = fold (\<lambda>w m. if w > m then w else m) xs mx"

text \<open>
  The filter as the constructor makes it and as every operation leaves it: a window
  size within its limits, the array of \<open>MAX_SIZE\<close> slots, a counter that fits a
  \<open>size_t\<close>.
\<close>

definition MovingAverage_ok :: "MovingAverage \<Rightarrow> bool" where
  "MovingAverage_ok ma \<longleftrightarrow>
     MIN_SIZE \<le> m_Size ma \<and> m_Size ma \<le> MAX_SIZE
     \<and> length (m_Values ma) = MAX_SIZE \<and> m_NumValues ma < 4294967296"

text \<open>
  The calibration state: tare offset, scale factor, calibrated flag, display offset
  and units.
\<close>

definition calibration_state :: "LoadCell \<Rightarrow> int \<times> real \<times> bool \<times> real \<times> WeightUnits" where
  "calibration_state s =
     (m_RawTareWeight s, m_UnitsScaleFactor s, m_IsCalibrated s, m_Offset s, m_Units s)"

text \<open>
  The weight of a reading in grams: the value \<open>ReadWeight\<close> returns, times the factor
  of the unit that is active after the read.
\<close>

definition grams_of_reading :: "fault + (real \<times> LoadCell) \<Rightarrow> fault + real" where
  "grams_of_reading r =
     (case r of Inl e \<Rightarrow> Inl e | Inr (w, t) \<Rightarrow> Inr (w * GetBaseUnitsFactor (m_Units t)))"

text \<open>
  The state after a call that returns a result (the state before it otherwise).
\<close>

definition after :: "fault + ('a \<times> LoadCell) \<Rightarrow> LoadCell \<Rightarrow> LoadCell" where
  "after r s = (case r of Inl e \<Rightarrow> s | Inr (v, s') \<Rightarrow> s')"

text \<open>
  The filter holds the samples \<open>h\<close> that were added since the last reset, the
  latest last: the counter is their number, the total is the sum of the last
  \<open>m_Size\<close> of them (of all of them while they are fewer), and each of these is in the
  slot of its index modulo \<open>m_Size\<close>. \<open>samples32\<close> says that the samples are \<open>int32_t\<close>
  values.
\<close>

definition holds_window :: "MovingAverage \<Rightarrow> int list \<Rightarrow> bool" where
  "holds_window f h \<longleftrightarrow>
     m_NumValues f = length h
     \<and> m_Total f = sum_list (drop (length h - m_Size f) h)
     \<and> list_all (\<lambda>j. m_Values f ! (j mod m_Size f) = h ! j)
          [length h - m_Size f ..< length h]"


text \<open>
  The state after \<open>n\<close> calls of \<open>ReadWeight\<close>.
\<close>

primrec reads :: "nat \<Rightarrow> LoadCell \<Rightarrow> LoadCell" where
  "reads 0 s = s"
| "reads (Suc n) s = after (ReadWeight (reads n s)) (reads n s)"

text \<open>
  The states the code reaches, with the content of the non-volatile storage: an
  instance is constructed over an empty storage, or anew over the storage as it is,
  and every public operation leads from a reachable state to a reachable state.
  Where \<open>Calibrate\<close> stores a scale factor that is no number the source goes on with
  the state the fault carries, whatever that field holds.
\<close>

inductive reachable :: "LoadCell \<Rightarrow> NVS \<Rightarrow> bool" where
  constructed: "reachable (LoadCell_new samples ready gain) (\<lambda>name. None)"
| constructed_again: "reachable s nvs \<Longrightarrow> reachable (LoadCell_new samples ready gain) nvs"
| after_Init: "reachable s nvs \<Longrightarrow> reachable (snd (Init pName s)) nvs"
| after_IsPresent: "reachable s nvs \<Longrightarrow> reachable (snd (IsPresent s)) nvs"
| after_SetGain: "reachable s nvs \<Longrightarrow> reachable (snd (SetGain gain s)) nvs"
| after_ReadRawAverage:
    "reachable s nvs \<Longrightarrow> ReadRawAverage count s = Inr (v, s') \<Longrightarrow> reachable s' nvs"
| after_Tare: "reachable s nvs \<Longrightarrow> Tare count s = Inr (ok, s') \<Longrightarrow> reachable s' nvs"
| after_Calibrate:
    "reachable s nvs \<Longrightarrow> Calibrate rawCalWeight cookedCalWeight s = Inr (ok, s') \<Longrightarrow>
     reachable s' nvs"
| after_Calibrate_non_finite:
    "reachable s nvs \<Longrightarrow>
     Calibrate rawCalWeight cookedCalWeight s = Inl (NonFiniteDouble s') \<Longrightarrow>
     reachable (s'\<lparr>m_UnitsScaleFactor := x\<rparr>) nvs"
| after_SetUnits: "reachable s nvs \<Longrightarrow> reachable (snd (SetUnits u s)) nvs"
| after_ReadWeight: "reachable s nvs \<Longrightarrow> ReadWeight s = Inr (w, s') \<Longrightarrow> reachable s' nvs"
| after_SetAverageInterval:
    "reachable s nvs \<Longrightarrow> reachable (snd (SetAverageInterval interval s)) nvs"
| after_ResetAverage: "reachable s nvs \<Longrightarrow> reachable (ResetAverage s) nvs"
| after_SetOffset: "reachable s nvs \<Longrightarrow> reachable (SetOffset newOffset s) nvs"
| after_Save: "reachable s nvs \<Longrightarrow> reachable s (snd (Save s nvs))"
| after_Restore: "reachable s nvs \<Longrightarrow> reachable (snd (Restore s nvs)) nvs"
| after_Reset: "reachable s nvs \<Longrightarrow> reachable s (snd (Reset s nvs))"

text \<open>
  The active unit and every stored unit are among the four units that have a factor.
\<close>

definition units_valid :: "LoadCell \<Rightarrow> NVS \<Rightarrow> bool" where
  "units_valid s nvs \<longleftrightarrow>
     GetBaseUnitsFactor (m_Units s) \<noteq> 0
     \<and> (\<forall>name c. nvs name = Some c \<longrightarrow> GetBaseUnitsFactor (cache_Units c) \<noteq> 0)"

subsection \<open>Example scales\<close>

text \<open>
  A sensor that delivers the samples of a list, and zeros after them. Each example
  scale is wired to such a sensor; the first sample of a batch read is the
  throwaway one.
\<close>

definition sensor_feed :: "int list \<Rightarrow> nat \<Rightarrow> int" where
  "sensor_feed xs i = (if i < length xs then xs ! i else 0)"

definition negative_cell :: LoadCell where
  "negative_cell = LoadCell_new (sensor_feed [5, - 3, - 4, - 2]) True DEFAULT_GAIN"

definition steady_cell :: LoadCell where
  "steady_cell = LoadCell_new (sensor_feed [7, 8000, 8001, 7999, 8000, 8002]) True DEFAULT_GAIN"

definition edge_cell :: LoadCell where
  "edge_cell = LoadCell_new (sensor_feed [7, 1000, 1000, 1000, 1001, 999]) True DEFAULT_GAIN"

definition huge_cell :: LoadCell where
  "huge_cell = LoadCell_new (sensor_feed [7, 2147483647]) True DEFAULT_GAIN"

definition spec_cell :: LoadCell where
  "spec_cell = LoadCell_new (sensor_feed [7, 1000, 1001, 999, 1000, 1002]) True DEFAULT_GAIN"

text \<open>
  A scale that is tared on the batch 1000, 1000, 1000, 1000, 1000 and calibrated
  with \<open>Calibrate 2000 500\<close>; its sensor delivers 1500 next, and then the same batch
  again.
\<close>

definition level_cell :: LoadCell where
  "level_cell =
     LoadCell_new (sensor_feed [7, 1000, 1000, 1000, 1000, 1000,
                                1500, 1000, 1000, 1000, 1000, 1000]) True DEFAULT_GAIN"

definition tared_cell :: LoadCell where
  "tared_cell = after (Tare 5 level_cell) level_cell"

definition calibrated_cell :: LoadCell where
  "calibrated_cell = after (Calibrate 2000 500 tared_cell) tared_cell"

text \<open>
  A scale named \<open>"scale"\<close> that is set to gain 64, tared, calibrated and saved, and a
  freshly constructed scale of the same name that restores the saved state.
\<close>

definition named_cell :: LoadCell where
  "named_cell =
     snd (Init (Some ''scale'')
            (LoadCell_new (sensor_feed [7, 7, 7, 1000, 1000, 1000, 1000, 1000]) True DEFAULT_GAIN))"

definition gain64_cell :: LoadCell where
  "gain64_cell = snd (SetGain 64 named_cell)"

definition tared64_cell :: LoadCell where
  "tared64_cell = after (Tare 5 gain64_cell) gain64_cell"

definition saved_cell :: LoadCell where
  "saved_cell = after (Calibrate 2000 500 tared64_cell) tared64_cell"

definition saved_nvs :: NVS where
  "saved_nvs = snd (Save saved_cell (\<lambda>name. None))"

definition fresh_cell :: LoadCell where
  "fresh_cell =
     snd (Init (Some ''scale'') (LoadCell_new (sensor_feed [7, 7]) True DEFAULT_GAIN))"

definition restored_cell :: LoadCell where
  "restored_cell = snd (Restore fresh_cell saved_nvs)"

text \<open>
  A scale on the bench: tared on the batch 1000, 1000, 1000, 1000, 1000, calibrated
  with \<open>Calibrate 2000 500\<close>, set to a window of two samples and a display offset
  of 10. It then reads 1500 and 1600, which fills the window (\<open>windowed_cell\<close>), and
  1800 (\<open>measured_cell\<close>); the batch that follows is 1200, 1200, 1200, 1200, 1200.
\<close>

definition bench_cell :: LoadCell where
  "bench_cell =
     LoadCell_new (sensor_feed [7, 1000, 1000, 1000, 1000, 1000, 1500, 1600, 1800,
                                7, 1200, 1200, 1200, 1200, 1200]) True DEFAULT_GAIN"

definition bench_tared :: LoadCell where
  "bench_tared = after (Tare 5 bench_cell) bench_cell"

definition bench_calibrated :: LoadCell where
  "bench_calibrated = after (Calibrate 2000 500 bench_tared) bench_tared"

definition bench_narrow :: LoadCell where
  "bench_narrow = SetOffset 10 (snd (SetAverageInterval 2 bench_calibrated))"

definition windowed_cell :: LoadCell where
  "windowed_cell = reads 2 bench_narrow"

definition measured_cell :: LoadCell where
  "measured_cell = after (ReadWeight windowed_cell) windowed_cell"

section \<open>Arithmetic of the fixed-width integers\<close>

lemma int32_of_range: "- 2147483648 \<le> int32_of x \<and> int32_of x \<le> 2147483647"
  unfolding int32_of_def
  using pos_mod_sign[of 4294967296 "x + 2147483648"] pos_mod_bound[of 4294967296 "x + 2147483648"]
  by linarith

lemma int32_of_id: "- 2147483648 \<le> x \<Longrightarrow> x \<le> 2147483647 \<Longrightarrow> int32_of x = x"
  unfolding int32_of_def by (simp add: mod_pos_pos_trivial)

lemma int32_of_add_left: "int32_of (int32_of a + b) = int32_of (a + b)"
proof -
  have "((a + 2147483648) mod 4294967296 - 2147483648 + b + 2147483648) mod 4294967296
        = ((a + 2147483648) mod 4294967296 + b) mod (4294967296::int)"
    by (simp add: algebra_simps)
  also have "\<dots> = (a + 2147483648 + b) mod 4294967296"
    by (rule mod_add_left_eq)
  also have "\<dots> = (a + b + 2147483648) mod 4294967296"
    by (simp add: algebra_simps)
  finally show ?thesis
    by (simp add: int32_of_def)
qed

lemma int32_of_wrap_high:
  assumes "2147483647 < x" "x < 6442450944"
  shows "int32_of x = x - 4294967296"
proof -
  have "(x + 2147483648) mod 4294967296 = (x + 2147483648 - 4294967296) mod 4294967296"
    by (simp only: minus_mod_self2)
  also have "\<dots> = x + 2147483648 - 4294967296"
    using assms by (intro mod_pos_pos_trivial) simp_all
  finally show ?thesis by (simp add: int32_of_def)
qed

lemma uint32_of_id: "0 \<le> x \<Longrightarrow> x \<le> 2147483647 \<Longrightarrow> uint32_of x = x"
  by (simp add: uint32_of_def)

lemma cdiv_nonneg: "0 \<le> a \<Longrightarrow> 0 < b \<Longrightarrow> cdiv a b = a div b"
  by (simp add: cdiv_def)

lemma cdiv_neg: "a < 0 \<Longrightarrow> 0 < b \<Longrightarrow> cdiv a b = - ((- a) div b)"
  by (simp add: cdiv_def)

lemma cdiv_one: "cdiv a 1 = a"
  by (simp add: cdiv_def)

lemma cdiv_limit_nonpos:
  "m \<le> 0 \<Longrightarrow> m \<le> cdiv m LIMIT_DIVISOR \<and> cdiv m LIMIT_DIVISOR \<le> 0"
  unfolding cdiv_def LIMIT_DIVISOR_def by (cases "m = 0") auto

lemma cdiv_limit_nonneg:
  "0 \<le> m \<Longrightarrow> 0 \<le> cdiv m LIMIT_DIVISOR \<and> cdiv m LIMIT_DIVISOR \<le> m"
  unfolding cdiv_def LIMIT_DIVISOR_def by auto

lemma cdiv_limit_pos: "0 < cdiv m LIMIT_DIVISOR \<Longrightarrow> 0 < m"
  using cdiv_limit_nonpos[of m] by (cases "m \<le> 0") auto

lemma cdiv_limit_bound:
  "- 2147483648 \<le> m \<Longrightarrow> m \<le> 2147483647 \<Longrightarrow>
   - 2684355 \<le> cdiv m LIMIT_DIVISOR \<and> cdiv m LIMIT_DIVISOR \<le> 2684355"
  unfolding cdiv_def LIMIT_DIVISOR_def by auto

lemma cdiv_count_bound:
  assumes "0 < c" "- 2147483648 \<le> a" "a \<le> 2147483647"
  shows "- 2147483648 \<le> cdiv a c \<and> cdiv a c \<le> 2147483647"
proof -
  have "\<bar>a\<bar> div c \<le> \<bar>a\<bar> div 1"
    using assms(1) by (intro zdiv_mono2) simp_all
  moreover have "0 \<le> \<bar>a\<bar> div c"
    using assms(1) by (simp add: pos_imp_zdiv_nonneg_iff)
  ultimately show ?thesis
    using assms unfolding cdiv_def by auto
qed

lemma cdiv_count_bound2:
  assumes "2 \<le> c" "- 2147483648 \<le> a" "a \<le> 2147483647"
  shows "- 1073741824 \<le> cdiv a c \<and> cdiv a c \<le> 1073741824"
proof -
  have "\<bar>a\<bar> div c \<le> \<bar>a\<bar> div 2"
    using assms(1) by (intro zdiv_mono2) simp_all
  moreover have "0 \<le> \<bar>a\<bar> div c"
    using assms(1) by (simp add: pos_imp_zdiv_nonneg_iff)
  ultimately show ?thesis
    using assms unfolding cdiv_def by auto
qed

section \<open>The moving average\<close>

lemma MovingAverage_new_ok: "MovingAverage_ok (MovingAverage_new n)"
  by (simp add: MovingAverage_ok_def MovingAverage_new_def MovingAverage_SetSize_def
        MovingAverage_Reset_def MIN_SIZE_def MAX_SIZE_def Let_def)

lemma MovingAverage_Reset_ok: "MovingAverage_ok ma \<Longrightarrow> MovingAverage_ok (MovingAverage_Reset ma)"
  by (simp add: MovingAverage_ok_def MovingAverage_Reset_def)

lemma MovingAverage_SetSize_ok:
  "MovingAverage_ok ma \<Longrightarrow> MovingAverage_ok (snd (MovingAverage_SetSize n ma))"
  by (simp add: MovingAverage_ok_def MovingAverage_SetSize_def MovingAverage_Reset_def
        MIN_SIZE_def MAX_SIZE_def Let_def)


text \<open>The slot that \<open>Add\<close> writes, and reads when the window is full, is inside the array.\<close>

lemma MovingAverage_Add_slot:
  assumes "MovingAverage_ok ma"
  shows "(if m_NumValues ma < m_Size ma then m_NumValues ma
          else m_NumValues ma mod m_Size ma) < length (m_Values ma)"
proof -
  have "m_NumValues ma mod m_Size ma < m_Size ma"
    using assms by (simp add: MovingAverage_ok_def MIN_SIZE_def)
  then show ?thesis
    using assms by (simp add: MovingAverage_ok_def)
qed

lemma MovingAverage_new_eq:
  "1 \<le> n \<Longrightarrow> n \<le> 100 \<Longrightarrow>
   MovingAverage_new n = \<lparr>m_Values = replicate MAX_SIZE 0, m_NumValues = 0, m_Size = n, m_Total = 0\<rparr>"
  by (simp add: MovingAverage_new_def MovingAverage_SetSize_def MIN_SIZE_def MAX_SIZE_def
        MovingAverage_Reset_def Let_def)

lemma default_filter:
  "MovingAverage_new (nat \<lfloor>DEFAULT_AVERAGE_INTERVAL\<rfloor>)
     = \<lparr>m_Values = replicate MAX_SIZE 0, m_NumValues = 0, m_Size = 10, m_Total = 0\<rparr>"
  by (simp add: DEFAULT_AVERAGE_INTERVAL_def MovingAverage_new_eq)

lemma first_average:
  "MovingAverage_Average
     (snd (MovingAverage_Add 1500
             \<lparr>m_Values = replicate MAX_SIZE 0, m_NumValues = 0, m_Size = 10, m_Total = 0\<rparr>))
     = Inr 1500"
  by (simp add: MovingAverage_Average_def MovingAverage_Add_def Let_def size_t_of_def
        int64_of_def int32_of_def cdiv_def)

section \<open>The averaging loop and the acceptance band\<close>

text \<open>
  The loop computes the wrapped sum, the minimum and the maximum of the samples it
  reads, and advances the sensor by their number.
\<close>

lemma loop_eq:
  "ReadRawAverage_loop n s (sm, mn, mx) =
     ((int32_of (sm + sum_list (drawn n s)), lower_of (drawn n s) mn, upper_of (drawn n s) mx),
      s\<lparr>hx_reads := hx_reads s + n\<rparr>)" if "int32_of sm = sm"
  using that
proof (induction n arbitrary: s sm mn mx)
  case 0
  then show ?case by (simp add: lower_of_def upper_of_def)
next
  case (Suc n)
  have r: "int32_of (int32_of (sm + fst (ReadARawValue s))) = int32_of (sm + fst (ReadARawValue s))"
    using int32_of_range[of "sm + fst (ReadARawValue s)"] by (simp add: int32_of_id)
  show ?case
    using Suc.IH[OF r]
    by (simp add: case_prod_unfold lower_of_def upper_of_def int32_of_add_left add.assoc)
       (simp add: ReadARawValue_def)
qed

lemma lower_of_Min: "lower_of xs mn = Min (insert mn (set xs))"
proof (induction xs arbitrary: mn)
  case Nil
  show ?case by (simp add: lower_of_def)
next
  case (Cons x xs)
  have "lower_of (x # xs) mn = lower_of xs (if x < mn then x else mn)"
    by (simp add: lower_of_def)
  also have "\<dots> = Min (insert (if x < mn then x else mn) (set xs))"
    by (rule Cons.IH)
  also have "\<dots> = Min (insert mn (set (x # xs)))"
    by (cases "set xs = {}") (auto simp: min_def)
  finally show ?case .
qed

lemma upper_of_Max: "upper_of xs mx = Max (insert mx (set xs))"
proof (induction xs arbitrary: mx)
  case Nil
  show ?case by (simp add: upper_of_def)
next
  case (Cons x xs)
  have "upper_of (x # xs) mx = upper_of xs (if x > mx then x else mx)"
    by (simp add: upper_of_def)
  also have "\<dots> = Max (insert (if x > mx then x else mx) (set xs))"
    by (rule Cons.IH)
  also have "\<dots> = Max (insert mx (set (x # xs)))"
    by (cases "set xs = {}") (auto simp: max_def)
  finally show ?case .
qed

lemma drawn_range: "x \<in> set (drawn n s) \<Longrightarrow> - 2147483648 \<le> x \<and> x \<le> 2147483647"
proof (induction n arbitrary: s)
  case 0
  then show ?case by simp
next
  case (Suc n)
  then show ?case
    using int32_of_range[of "hx_samples s (hx_reads s)"]
    by (auto simp: ReadARawValue_def)
qed

lemma drawn_length: "length (drawn n s) = n"
  by (induction n arbitrary: s) simp_all

lemma drawn_cong:
  "hx_samples s = hx_samples t \<Longrightarrow> hx_reads s = hx_reads t \<Longrightarrow> drawn n s = drawn n t"
  by (induction n arbitrary: s t) (simp_all add: ReadARawValue_def)

lemma batch_cong:
  "hx_samples s = hx_samples t \<Longrightarrow> hx_reads s = hx_reads t \<Longrightarrow> batch n s = batch n t"
  unfolding batch_def by (rule drawn_cong) (simp_all add: ReadARawValue_def)

lemma batch_accepted_cong:
  "batch n s = batch n t \<Longrightarrow>
   batch_accepted n s = batch_accepted n t \<and> batch_mean n s = batch_mean n t"
  by (simp add: batch_accepted_def batch_mean_def)

lemma batch_Min: "1 \<le> count \<Longrightarrow> lower_of (batch count s) INT_MAX = Min (set (batch count s))"
proof -
  assume "1 \<le> count"
  then have ne: "set (batch count s) \<noteq> {}"
    using drawn_length[of count "snd (ReadARawValue s)"] by (auto simp: batch_def)
  then have "Min (set (batch count s)) \<in> set (batch count s)"
    by (intro Min_in) simp_all
  then have "Min (set (batch count s)) \<le> INT_MAX"
    using drawn_range by (auto simp: batch_def INT_MAX_def)
  moreover have "Min (insert INT_MAX (set (batch count s))) = min INT_MAX (Min (set (batch count s)))"
    using ne by (intro Min_insert) simp_all
  ultimately show ?thesis
    by (simp only: lower_of_Min min_def) simp
qed

lemma batch_Max: "1 \<le> count \<Longrightarrow> upper_of (batch count s) INT_MIN = Max (set (batch count s))"
proof -
  assume "1 \<le> count"
  then have ne: "set (batch count s) \<noteq> {}"
    using drawn_length[of count "snd (ReadARawValue s)"] by (auto simp: batch_def)
  then have "Max (set (batch count s)) \<in> set (batch count s)"
    by (intro Max_in) simp_all
  then have "INT_MIN \<le> Max (set (batch count s))"
    using drawn_range by (auto simp: batch_def INT_MIN_def)
  moreover have "Max (insert INT_MIN (set (batch count s))) = max INT_MIN (Max (set (batch count s)))"
    using ne by (intro Max_insert) simp_all
  ultimately show ?thesis
    by (simp only: upper_of_Max max_def) simp
qed

lemma ReadRawAverage_eq:
  assumes "1 \<le> count"
  shows "ReadRawAverage count s =
     Inr (uint32_of
            (if Max (set (batch count s))
                  < int32_of (batch_mean count s + cdiv (batch_mean count s) LIMIT_DIVISOR)
                \<and> Min (set (batch count s))
                  > int32_of (batch_mean count s - cdiv (batch_mean count s) LIMIT_DIVISOR)
             then batch_mean count s else 0),
          s\<lparr>hx_reads := hx_reads s + count + 1\<rparr>)"
proof -
  have z: "int32_of 0 = 0" by (simp add: int32_of_def)
  have l: "ReadRawAverage_loop count (snd (ReadARawValue s)) (0, INT_MAX, INT_MIN) =
     ((int32_of (sum_list (batch count s)), Min (set (batch count s)), Max (set (batch count s))),
      s\<lparr>hx_reads := hx_reads s + count + 1\<rparr>)"
    using loop_eq[OF z, of count "snd (ReadARawValue s)" INT_MAX INT_MIN]
      batch_Min[OF assms, of s] batch_Max[OF assms, of s]
    by (simp add: batch_def) (simp add: ReadARawValue_def)
  show ?thesis
    using assms by (simp add: ReadRawAverage_def case_prod_unfold l batch_mean_def Let_def)
qed

lemma batch_nonempty: "1 \<le> count \<Longrightarrow> set (batch count s) \<noteq> {}"
  using drawn_length[of count "snd (ReadARawValue s)"] by (auto simp: batch_def)

lemma batch_Min_le_Max:
  "1 \<le> count \<Longrightarrow> Min (set (batch count s)) \<le> Max (set (batch count s))"
  using batch_nonempty[of count s] by (intro Min_le) simp_all

lemma batch_Min_range:
  "1 \<le> count \<Longrightarrow>
   - 2147483648 \<le> Min (set (batch count s)) \<and> Min (set (batch count s)) \<le> 2147483647"
  using Min_in[of "set (batch count s)"] batch_nonempty[of count s]
    drawn_range[of "Min (set (batch count s))" count "snd (ReadARawValue s)"]
  by (simp add: batch_def)

lemma batch_Max_range:
  "1 \<le> count \<Longrightarrow>
   - 2147483648 \<le> Max (set (batch count s)) \<and> Max (set (batch count s)) \<le> 2147483647"
  using Max_in[of "set (batch count s)"] batch_nonempty[of count s]
    drawn_range[of "Max (set (batch count s))" count "snd (ReadARawValue s)"]
  by (simp add: batch_def)

lemma batch_mean_range:
  "1 \<le> count \<Longrightarrow>
   - 2147483648 \<le> batch_mean count s \<and> batch_mean count s \<le> 2147483647"
  unfolding batch_mean_def
  using int32_of_range[of "sum_list (batch count s)"]
  by (intro cdiv_count_bound) simp_all

lemma batch_mean_range2:
  "2 \<le> count \<Longrightarrow>
   - 1073741824 \<le> batch_mean count s \<and> batch_mean count s \<le> 1073741824"
  unfolding batch_mean_def
  using int32_of_range[of "sum_list (batch count s)"]
  by (intro cdiv_count_bound2) simp_all

lemma batch_single:
  "batch_mean 1 s = Min (set (batch 1 s)) \<and> batch_mean 1 s = Max (set (batch 1 s))"
  using int32_of_range[of "hx_samples s (Suc (hx_reads s))"]
  by (simp add: batch_mean_def batch_def cdiv_one ReadARawValue_def int32_of_id)

lemma lower_limit_exact:
  assumes "- 2147483648 \<le> m" "m \<le> 2147483647"
  shows "int32_of (m - cdiv m LIMIT_DIVISOR) = m - cdiv m LIMIT_DIVISOR"
proof (cases "m \<le> 0")
  case True
  then show ?thesis
    using cdiv_limit_nonpos[of m] assms by (intro int32_of_id) linarith+
next
  case False
  then show ?thesis
    using cdiv_limit_nonneg[of m] assms by (intro int32_of_id) linarith+
qed

text \<open>
  A batch whose mean is not positive is never accepted: the lower limit is then at
  least the mean, and the upper limit at most the mean unless it wraps around, which
  needs a single sample.
\<close>

lemma rejects_nonpos_mean:
  assumes c: "1 \<le> count" and m: "batch_mean count s \<le> 0"
  shows "\<not> (Max (set (batch count s))
               < int32_of (batch_mean count s + cdiv (batch_mean count s) LIMIT_DIVISOR)
             \<and> Min (set (batch count s))
               > int32_of (batch_mean count s - cdiv (batch_mean count s) LIMIT_DIVISOR))"
proof (cases "count = 1")
  case True
  have "batch_mean count s \<le> batch_mean count s - cdiv (batch_mean count s) LIMIT_DIVISOR"
    using cdiv_limit_nonpos[OF m] by linarith
  then have "Min (set (batch count s))
      \<le> int32_of (batch_mean count s - cdiv (batch_mean count s) LIMIT_DIVISOR)"
    using batch_single[of s] True lower_limit_exact[OF batch_mean_range[OF c, THEN conjunct1]
        batch_mean_range[OF c, THEN conjunct2], of s]
    by simp
  then show ?thesis by linarith
next
  case False
  with c have c2: "2 \<le> count" by simp
  have u: "int32_of (batch_mean count s + cdiv (batch_mean count s) LIMIT_DIVISOR)
        = batch_mean count s + cdiv (batch_mean count s) LIMIT_DIVISOR"
    using batch_mean_range2[OF c2, of s] cdiv_limit_nonpos[OF m]
    by (intro int32_of_id) linarith+
  have l: "int32_of (batch_mean count s - cdiv (batch_mean count s) LIMIT_DIVISOR)
        = batch_mean count s - cdiv (batch_mean count s) LIMIT_DIVISOR"
    using batch_mean_range[OF c, of s] by (intro lower_limit_exact) simp_all
  show ?thesis
    unfolding u l
    using batch_Min_le_Max[OF c, of s] cdiv_limit_nonpos[OF m] by linarith
qed

text \<open>
  The test of the source against the band written with differences.
\<close>

lemma accepts_strict_band:
  assumes c: "1 \<le> count"
    and hi: "Max (set (batch count s)) - batch_mean count s < cdiv (batch_mean count s) LIMIT_DIVISOR"
    and lo: "batch_mean count s - Min (set (batch count s)) < cdiv (batch_mean count s) LIMIT_DIVISOR"
    and ov: "batch_mean count s + cdiv (batch_mean count s) LIMIT_DIVISOR \<le> INT_MAX"
  shows "Max (set (batch count s))
           < int32_of (batch_mean count s + cdiv (batch_mean count s) LIMIT_DIVISOR)
         \<and> Min (set (batch count s))
           > int32_of (batch_mean count s - cdiv (batch_mean count s) LIMIT_DIVISOR)"
    and "0 < batch_mean count s"
proof -
  have d: "0 < cdiv (batch_mean count s) LIMIT_DIVISOR"
    using hi lo batch_Min_le_Max[OF c, of s] by linarith
  then show m: "0 < batch_mean count s" by (rule cdiv_limit_pos)
  have u: "int32_of (batch_mean count s + cdiv (batch_mean count s) LIMIT_DIVISOR)
        = batch_mean count s + cdiv (batch_mean count s) LIMIT_DIVISOR"
    using m d ov by (intro int32_of_id) (simp_all add: INT_MAX_def)
  have l: "int32_of (batch_mean count s - cdiv (batch_mean count s) LIMIT_DIVISOR)
        = batch_mean count s - cdiv (batch_mean count s) LIMIT_DIVISOR"
    using batch_mean_range[OF c, of s] by (intro lower_limit_exact) simp_all
  show "Max (set (batch count s))
           < int32_of (batch_mean count s + cdiv (batch_mean count s) LIMIT_DIVISOR)
         \<and> Min (set (batch count s))
           > int32_of (batch_mean count s - cdiv (batch_mean count s) LIMIT_DIVISOR)"
    unfolding u l using hi lo by linarith
qed

lemma rejects_outside_band:
  assumes c: "1 \<le> count"
    and out: "\<not> (Max (set (batch count s)) - batch_mean count s
                    < cdiv (batch_mean count s) LIMIT_DIVISOR
                  \<and> batch_mean count s - Min (set (batch count s))
                    < cdiv (batch_mean count s) LIMIT_DIVISOR)"
  shows "\<not> (Max (set (batch count s))
               < int32_of (batch_mean count s + cdiv (batch_mean count s) LIMIT_DIVISOR)
             \<and> Min (set (batch count s))
               > int32_of (batch_mean count s - cdiv (batch_mean count s) LIMIT_DIVISOR))"
proof (cases "batch_mean count s \<le> 0")
  case True
  with c show ?thesis by (rule rejects_nonpos_mean)
next
  case False
  then have m: "0 \<le> batch_mean count s" by simp
  have l: "int32_of (batch_mean count s - cdiv (batch_mean count s) LIMIT_DIVISOR)
        = batch_mean count s - cdiv (batch_mean count s) LIMIT_DIVISOR"
    using batch_mean_range[OF c, of s] by (intro lower_limit_exact) simp_all
  show ?thesis
  proof (cases "batch_mean count s + cdiv (batch_mean count s) LIMIT_DIVISOR \<le> 2147483647")
    case True
    have u: "int32_of (batch_mean count s + cdiv (batch_mean count s) LIMIT_DIVISOR)
        = batch_mean count s + cdiv (batch_mean count s) LIMIT_DIVISOR"
      using m cdiv_limit_nonneg[OF m] True by (intro int32_of_id) linarith+
    show ?thesis
      unfolding u l using out by linarith
  next
    case False
    have b: "cdiv (batch_mean count s) LIMIT_DIVISOR \<le> 2684355"
      using batch_mean_range[OF c, of s] cdiv_limit_bound[of "batch_mean count s"] by simp
    have u: "int32_of (batch_mean count s + cdiv (batch_mean count s) LIMIT_DIVISOR)
        = batch_mean count s + cdiv (batch_mean count s) LIMIT_DIVISOR - 4294967296"
      using False b batch_mean_range[OF c, of s] by (intro int32_of_wrap_high) linarith+
    show ?thesis
      unfolding u l
      using b batch_mean_range[OF c, of s] cdiv_limit_nonneg[OF m] batch_Min_le_Max[OF c, of s]
      by linarith
  qed
qed

text \<open>
  Where the upper limit exceeds \<open>INT_MAX\<close> it wraps around and the batch is rejected,
  though it lies inside the band: a single sample \<open>INT_MAX\<close>.
\<close>

lemma upper_limit_wraps:
  "batch_mean 1 huge_cell = 2147483647
   \<and> Max (set (batch 1 huge_cell)) - batch_mean 1 huge_cell < cdiv (batch_mean 1 huge_cell) 800
   \<and> batch_mean 1 huge_cell - Min (set (batch 1 huge_cell)) < cdiv (batch_mean 1 huge_cell) 800
   \<and> INT_MAX < batch_mean 1 huge_cell + cdiv (batch_mean 1 huge_cell) 800
   \<and> (case ReadRawAverage 1 huge_cell of Inl e \<Rightarrow> False | Inr (v, s') \<Rightarrow> v = 0)"
  by code_simp

lemma batch_accepted_pos:
  assumes "1 \<le> count" "batch_accepted count s"
  shows "0 < batch_mean count s"
  using rejects_nonpos_mean[OF assms(1), of s] assms(2)
  unfolding batch_accepted_def by fastforce

lemma ReadRawAverage_eq2:
  assumes "1 \<le> count"
  shows "ReadRawAverage count s =
     Inr (uint32_of (if batch_accepted count s then batch_mean count s else 0),
          s\<lparr>hx_reads := hx_reads s + count + 1\<rparr>)"
  unfolding batch_accepted_def using assms by (rule ReadRawAverage_eq)

lemma ReadRawAverage_result:
  assumes "1 \<le> count"
  shows "ReadRawAverage count s =
     Inr (if batch_accepted count s then batch_mean count s else 0,
          s\<lparr>hx_reads := hx_reads s + count + 1\<rparr>)"
proof (cases "batch_accepted count s")
  case True
  have "uint32_of (batch_mean count s) = batch_mean count s"
    using batch_accepted_pos[OF assms True] batch_mean_range[OF assms, of s]
    by (intro uint32_of_id) simp_all
  then show ?thesis
    using True by (simp add: ReadRawAverage_eq2[OF assms])
next
  case False
  then show ?thesis
    by (simp add: ReadRawAverage_eq2[OF assms] uint32_of_def)
qed

lemma ReadRawAverage_state:
  "ReadRawAverage count s = Inr (v, s') \<Longrightarrow> s' = s\<lparr>hx_reads := hx_reads s + count + 1\<rparr>"
proof (cases "count = 0")
  case True
  assume "ReadRawAverage count s = Inr (v, s')"
  with True show ?thesis by (simp add: ReadRawAverage_def case_prod_unfold)
next
  case False
  assume "ReadRawAverage count s = Inr (v, s')"
  with False show ?thesis by (simp add: ReadRawAverage_result)
qed

section \<open>The operations of the scale\<close>

lemma Tare_eq:
  assumes "1 \<le> count"
  shows "Tare count s =
     (if batch_accepted count s
      then Inr (True, s\<lparr>hx_reads := hx_reads s + count + 1,
                        m_RawTareWeight := batch_mean count s,
                        m_MovingAverage := MovingAverage_Reset (m_MovingAverage s)\<rparr>)
      else Inr (False, s\<lparr>hx_reads := hx_reads s + count + 1\<rparr>))"
proof (cases "batch_accepted count s")
  case True
  have "int32_of (batch_mean count s) = batch_mean count s"
    using batch_mean_range[OF assms, of s] by (intro int32_of_id) simp_all
  then show ?thesis
    using True batch_accepted_pos[OF assms True]
    by (simp add: Tare_def ReadRawAverage_result[OF assms])
next
  case False
  then show ?thesis
    by (simp add: Tare_def ReadRawAverage_result[OF assms])
qed

lemma Tare_false_state:
  "Tare count s = Inr (False, s') \<Longrightarrow> s' = s\<lparr>hx_reads := hx_reads s + count + 1\<rparr>"
  by (auto simp: Tare_def split: sum.splits if_splits dest: ReadRawAverage_state)

lemma Tare_true_state:
  "Tare count s = Inr (True, s') \<Longrightarrow>
   \<exists>v. s' = s\<lparr>hx_reads := hx_reads s + count + 1, m_RawTareWeight := v,
               m_MovingAverage := MovingAverage_Reset (m_MovingAverage s)\<rparr>"
  by (auto simp: Tare_def split: sum.splits if_splits dest!: ReadRawAverage_state)

lemma Calibrate_given:
  assumes "m_RawTareWeight s \<noteq> 0" "rawCalWeight \<noteq> 0"
    "uint32_of (rawCalWeight - uint32_of (m_RawTareWeight s)) \<noteq> 0"
  shows "Calibrate rawCalWeight cookedCalWeight s =
     Inr (True, s\<lparr>m_MovingAverage := MovingAverage_Reset (m_MovingAverage s),
                   m_UnitsScaleFactor :=
                     cookedCalWeight
                       / real_of_int (uint32_of (rawCalWeight - uint32_of (m_RawTareWeight s))),
                   m_IsCalibrated := True\<rparr>)"
  using assms by (simp add: Calibrate_def Calibrate_finish_def Let_def)

lemma Calibrate_false_state:
  "Calibrate rawCalWeight cookedCalWeight s = Inr (False, s') \<Longrightarrow>
   s' = s \<or> s' = s\<lparr>hx_reads := hx_reads s + DEFAULT_TARE_COUNT + 1\<rparr>"
  by (auto simp: Calibrate_def Calibrate_finish_def Let_def
        split: sum.splits if_splits dest: ReadRawAverage_state)

lemma SetGain_eq:
  "SetGain gain s =
     (if (gain = 128 \<or> gain = 64) \<and> gain \<noteq> m_Gain s
      then (True, s\<lparr>m_IsCalibrated := False, m_Gain := gain, hx_reads := hx_reads s + 1,
                    m_MovingAverage := MovingAverage_Reset (m_MovingAverage s)\<rparr>)
      else (False, s))"
  by (simp add: SetGain_def ReadARawValue_def ResetAverage_def)

lemma SetUnits_valid:
  assumes "GetBaseUnitsFactor (m_Units s) \<noteq> 0" "GetBaseUnitsFactor u \<noteq> 0"
  shows "SetUnits u s =
     (True, if u = m_Units s then s
            else s\<lparr>m_ConversionFactor := GetBaseUnitsFactor (m_Units s) / GetBaseUnitsFactor u,
                   m_Offset := m_Offset s * (GetBaseUnitsFactor (m_Units s) / GetBaseUnitsFactor u),
                   m_UnitsScaleFactor :=
                     m_UnitsScaleFactor s * (GetBaseUnitsFactor (m_Units s) / GetBaseUnitsFactor u),
                   m_Units := u\<rparr>)"
  using assms by (simp add: SetUnits_def Let_def)

lemma ReadAndAverageRawWeight_eq:
  "ReadAndAverageRawWeight s =
     (case MovingAverage_Average
             (snd (MovingAverage_Add (fst (ReadARawValue s)) (m_MovingAverage s))) of
        Inl e \<Rightarrow> Inl e
      | Inr a \<Rightarrow>
          Inr (a, s\<lparr>hx_reads := hx_reads s + 1,
                    m_MovingAverage :=
                      snd (MovingAverage_Add (fst (ReadARawValue s)) (m_MovingAverage s))\<rparr>))"
  by (simp add: ReadAndAverageRawWeight_def ReadARawValue_def case_prod_unfold Let_def
        split: sum.splits)

lemma ReadWeight_calibrated:
  "m_IsCalibrated s \<Longrightarrow>
   ReadWeight s =
     (case MovingAverage_Average
             (snd (MovingAverage_Add (fst (ReadARawValue s)) (m_MovingAverage s))) of
        Inl e \<Rightarrow> Inl e
      | Inr a \<Rightarrow>
          Inr ((real_of_int a - real_of_int (m_RawTareWeight s)) * m_UnitsScaleFactor s
                 - m_Offset s,
               s\<lparr>hx_reads := hx_reads s + 1,
                 m_MovingAverage :=
                   snd (MovingAverage_Add (fst (ReadARawValue s)) (m_MovingAverage s))\<rparr>))"
  by (simp add: ReadWeight_def ReadAndAverageRawWeight_eq split: sum.splits)

subsection \<open>Save and Restore\<close>

text \<open>
  \<open>Restore\<close> reproduces every stored field except two: the gain, where the stored
  gain is not one \<open>SetGain\<close> accepts, and the calibrated flag, which \<open>SetGain\<close> clears
  after \<open>Restore\<close> has assigned it, where the stored gain differs from the current
  one.
\<close>

lemma Save_named:
  "m_pName s = Some name \<Longrightarrow> Save s nvs = (True, nvs(name \<mapsto> currentState s))"
  by (auto simp: Save_def fun_upd_idem)

lemma Restore_fields:
  assumes "m_pName t = Some name" and "nvs name = Some c"
  shows "fst (Restore t nvs)"
    and "m_RawTareWeight (snd (Restore t nvs)) = cache_RawTareWeight c"
    and "m_Offset (snd (Restore t nvs)) = cache_Offset c"
    and "m_Units (snd (Restore t nvs)) = cache_Units c"
    and "m_AverageInterval (snd (Restore t nvs)) = cache_AverageInterval c"
    and "m_UnitsScaleFactor (snd (Restore t nvs)) = cache_UnitsScaleFactor c"
    and "m_ConversionFactor (snd (Restore t nvs)) = cache_ConversionFactor c"
    and "m_Gain (snd (Restore t nvs))
           = (if cache_Gain c = 128 \<or> cache_Gain c = 64 then cache_Gain c else m_Gain t)"
    and "m_IsCalibrated (snd (Restore t nvs))
           \<longleftrightarrow> cache_IsCalibrated c
               \<and> \<not> ((cache_Gain c = 128 \<or> cache_Gain c = 64) \<and> cache_Gain c \<noteq> m_Gain t)"
  using assms
  by (auto simp: Restore_def SetGain_eq case_prod_unfold Let_def)

lemma Save_Restore_same_gain:
  assumes "m_pName s = Some name" and "m_pName t = Some name" and "m_Gain t = m_Gain s"
  shows "currentState (snd (Restore t (snd (Save s nvs)))) = currentState s"
  using assms(3) Restore_fields[OF assms(2), of "snd (Save s nvs)" "currentState s"]
  by (auto simp: Save_named[OF assms(1)] currentState_def)

subsection \<open>The example scales\<close>

lemma level_cell_fields:
  "m_Gain level_cell = 128" "m_RawTareWeight level_cell = 0" "\<not> m_IsCalibrated level_cell"
  "m_Units level_cell = eWuGrams" "hx_reads level_cell = 0"
  by (simp_all add: level_cell_def LoadCell_new_def DEFAULT_GAIN_def)

lemma level_batch: "batch_accepted 5 level_cell \<and> batch_mean 5 level_cell = 1000"
  by code_simp

lemma tared_cell_eq:
  "tared_cell = level_cell\<lparr>hx_reads := 6, m_RawTareWeight := 1000,
                   m_MovingAverage := MovingAverage_Reset (m_MovingAverage level_cell)\<rparr>"
proof -
  have "hx_reads level_cell = 0" by (simp add: level_cell_def LoadCell_new_def)
  then show ?thesis
    using level_batch by (simp add: tared_cell_def after_def Tare_eq)
qed

lemma calibrated_cell_eq:
  "calibrated_cell = tared_cell\<lparr>m_MovingAverage := MovingAverage_Reset (m_MovingAverage tared_cell),
                   m_UnitsScaleFactor := 1 / 2, m_IsCalibrated := True\<rparr>"
proof -
  have t: "m_RawTareWeight tared_cell = 1000" by (simp add: tared_cell_eq)
  have "Calibrate 2000 500 tared_cell =
     Inr (True, tared_cell\<lparr>m_MovingAverage := MovingAverage_Reset (m_MovingAverage tared_cell),
                   m_UnitsScaleFactor := 500 / real_of_int (uint32_of (2000 - uint32_of (m_RawTareWeight tared_cell))),
                   m_IsCalibrated := True\<rparr>)"
    by (rule Calibrate_given) (simp_all add: t uint32_of_def)
  then show ?thesis
    by (simp add: calibrated_cell_def after_def t uint32_of_def)
qed

lemma calibrated_cell_fields:
  "m_IsCalibrated calibrated_cell" "m_RawTareWeight calibrated_cell = 1000"
  "m_UnitsScaleFactor calibrated_cell = 1 / 2" "m_Offset calibrated_cell = 0"
  "m_Units calibrated_cell = eWuGrams" "hx_reads calibrated_cell = 6"
  "m_MovingAverage calibrated_cell
     = \<lparr>m_Values = replicate MAX_SIZE 0, m_NumValues = 0, m_Size = 10, m_Total = 0\<rparr>"
  "fst (ReadARawValue calibrated_cell) = 1500"
  by (simp_all add: calibrated_cell_eq tared_cell_eq level_cell_def LoadCell_new_def
        default_filter MovingAverage_Reset_def ReadARawValue_def sensor_feed_def int32_of_def)

lemma calibrated_cell_reading:
  "ReadWeight calibrated_cell =
     Inr (250, calibrated_cell\<lparr>hx_reads := 7,
                 m_MovingAverage :=
                   snd (MovingAverage_Add 1500
                     \<lparr>m_Values = replicate MAX_SIZE 0, m_NumValues = 0, m_Size = 10, m_Total = 0\<rparr>)\<rparr>)"
  by (simp add: ReadWeight_calibrated calibrated_cell_fields first_average)

lemma retare_batch: "batch_accepted 5 calibrated_cell \<and> batch_mean 5 calibrated_cell = 1000"
proof -
  have "batch 5 calibrated_cell = batch 5 (level_cell\<lparr>hx_reads := 6\<rparr>)"
    by (rule batch_cong) (simp_all add: calibrated_cell_eq tared_cell_eq)
  moreover have "batch_accepted 5 (level_cell\<lparr>hx_reads := 6\<rparr>)
      \<and> batch_mean 5 (level_cell\<lparr>hx_reads := 6\<rparr>) = 1000"
    by code_simp
  ultimately show ?thesis
    using batch_accepted_cong[of 5 calibrated_cell "level_cell\<lparr>hx_reads := 6\<rparr>"] by simp
qed

lemma spec_batch:
  "\<not> batch_accepted 5 spec_cell \<and> batch 5 spec_cell = [1000, 1001, 999, 1000, 1002]
   \<and> batch_mean 5 spec_cell = 1000 \<and> hx_reads spec_cell = 0"
  by code_simp

lemma named_cell_eq:
  "named_cell =
     (LoadCell_new (sensor_feed [7, 7, 7, 1000, 1000, 1000, 1000, 1000]) True DEFAULT_GAIN)
       \<lparr>hx_reads := 1, m_pName := Some ''scale''\<rparr>"
  by (simp add: named_cell_def Init_def IsPresent_def ReadARawValue_def LoadCell_new_def
        sensor_feed_def int32_of_def MAX_NVS_NAME_LEN_def)

lemma fresh_cell_fields:
  "m_pName fresh_cell = Some ''scale''" "m_Gain fresh_cell = 128"
  by (simp_all add: fresh_cell_def Init_def IsPresent_def ReadARawValue_def LoadCell_new_def
        sensor_feed_def int32_of_def MAX_NVS_NAME_LEN_def DEFAULT_GAIN_def)

lemma gain64_cell_eq:
  "gain64_cell = named_cell\<lparr>m_IsCalibrated := False, m_Gain := 64, hx_reads := 2,
                   m_MovingAverage := MovingAverage_Reset (m_MovingAverage named_cell)\<rparr>"
  by (simp add: gain64_cell_def SetGain_eq named_cell_eq LoadCell_new_def DEFAULT_GAIN_def)

lemma gain64_batch: "batch_accepted 5 gain64_cell \<and> batch_mean 5 gain64_cell = 1000"
proof -
  have "batch 5 gain64_cell
      = batch 5 ((LoadCell_new (sensor_feed [7, 7, 7, 1000, 1000, 1000, 1000, 1000]) True
                    DEFAULT_GAIN)\<lparr>hx_reads := 2\<rparr>)"
    by (rule batch_cong) (simp_all add: gain64_cell_eq named_cell_eq)
  moreover have "batch_accepted 5
        ((LoadCell_new (sensor_feed [7, 7, 7, 1000, 1000, 1000, 1000, 1000]) True
                    DEFAULT_GAIN)\<lparr>hx_reads := 2\<rparr>)
      \<and> batch_mean 5
        ((LoadCell_new (sensor_feed [7, 7, 7, 1000, 1000, 1000, 1000, 1000]) True
                    DEFAULT_GAIN)\<lparr>hx_reads := 2\<rparr>) = 1000"
    by code_simp
  ultimately show ?thesis
    using batch_accepted_cong[of 5 gain64_cell
        "(LoadCell_new (sensor_feed [7, 7, 7, 1000, 1000, 1000, 1000, 1000]) True
                    DEFAULT_GAIN)\<lparr>hx_reads := 2\<rparr>"]
    by simp
qed

lemma tared64_cell_eq:
  "tared64_cell = gain64_cell\<lparr>hx_reads := 8, m_RawTareWeight := 1000,
                   m_MovingAverage := MovingAverage_Reset (m_MovingAverage gain64_cell)\<rparr>"
proof -
  have "hx_reads gain64_cell = 2" by (simp add: gain64_cell_eq)
  then show ?thesis
    using gain64_batch by (simp add: tared64_cell_def after_def Tare_eq)
qed

lemma saved_cell_eq:
  "saved_cell = tared64_cell\<lparr>m_MovingAverage := MovingAverage_Reset (m_MovingAverage tared64_cell),
                   m_UnitsScaleFactor := 1 / 2, m_IsCalibrated := True\<rparr>"
proof -
  have t: "m_RawTareWeight tared64_cell = 1000" by (simp add: tared64_cell_eq)
  have "Calibrate 2000 500 tared64_cell =
     Inr (True, tared64_cell\<lparr>m_MovingAverage := MovingAverage_Reset (m_MovingAverage tared64_cell),
                   m_UnitsScaleFactor :=
                     500 / real_of_int (uint32_of (2000 - uint32_of (m_RawTareWeight tared64_cell))),
                   m_IsCalibrated := True\<rparr>)"
    by (rule Calibrate_given) (simp_all add: t uint32_of_def)
  then show ?thesis
    by (simp add: saved_cell_def after_def t uint32_of_def)
qed

lemma saved_cell_fields:
  "m_pName saved_cell = Some ''scale''" "m_Gain saved_cell = 64" "m_IsCalibrated saved_cell"
  "m_RawTareWeight saved_cell = 1000" "m_UnitsScaleFactor saved_cell = 1 / 2"
  by (simp_all add: saved_cell_eq tared64_cell_eq gain64_cell_eq named_cell_eq)

section \<open>Reading through the filter\<close>

text \<open>
  What \<open>Add\<close> leaves, and one call of \<open>ReadWeight\<close> on a calibrated scale written out:
  the sample goes into the next slot of the window, or over the oldest one, whose
  value leaves the total, when the window is full.
\<close>

lemma MovingAverage_Add_eq:
  "snd (MovingAverage_Add v f) =
     (if m_NumValues f < m_Size f
      then f\<lparr>m_Values := (m_Values f)[m_NumValues f := v],
             m_NumValues := size_t_of (int (m_NumValues f) + 1),
             m_Total := int64_of (m_Total f + v)\<rparr>
      else f\<lparr>m_Values := (m_Values f)[m_NumValues f mod m_Size f := v],
             m_NumValues := size_t_of (int (m_NumValues f) + 1),
             m_Total := int64_of (int64_of (m_Total f + v)
                                    - m_Values f ! (m_NumValues f mod m_Size f))\<rparr>)"
  by (simp add: MovingAverage_Add_def Let_def)

lemma size_t_of_Suc: "n < 4294967295 \<Longrightarrow> size_t_of (int n + 1) = n + 1"
  by (simp add: size_t_of_def nat_add_distrib)

lemma ReadWeight_explicit:
  assumes "m_IsCalibrated s" and "1 \<le> m_Size (m_MovingAverage s)"
    and "m_NumValues (m_MovingAverage s) < 4294967295"
  shows "ReadWeight s =
     (let f = m_MovingAverage s;
          n = m_NumValues f;
          v = int32_of (hx_samples s (hx_reads s));
          f' = (if n < m_Size f
                then f\<lparr>m_Values := (m_Values f)[n := v],
                       m_NumValues := n + 1,
                       m_Total := int64_of (m_Total f + v)\<rparr>
                else f\<lparr>m_Values := (m_Values f)[n mod m_Size f := v],
                       m_NumValues := n + 1,
                       m_Total := int64_of (int64_of (m_Total f + v)
                                              - m_Values f ! (n mod m_Size f))\<rparr>);
          average = int32_of (cdiv (m_Total f') (int (min (n + 1) (m_Size f))))
      in Inr ((real_of_int average - real_of_int (m_RawTareWeight s)) * m_UnitsScaleFactor s
                - m_Offset s,
              s\<lparr>hx_reads := hx_reads s + 1, m_MovingAverage := f'\<rparr>))"
proof -
  define f where "f = m_MovingAverage s"
  define v where "v = int32_of (hx_samples s (hx_reads s))"
  define f' where "f' = (if m_NumValues f < m_Size f
                then f\<lparr>m_Values := (m_Values f)[m_NumValues f := v],
                       m_NumValues := m_NumValues f + 1,
                       m_Total := int64_of (m_Total f + v)\<rparr>
                else f\<lparr>m_Values := (m_Values f)[m_NumValues f mod m_Size f := v],
                       m_NumValues := m_NumValues f + 1,
                       m_Total := int64_of (int64_of (m_Total f + v)
                                              - m_Values f ! (m_NumValues f mod m_Size f))\<rparr>)"
  have c: "size_t_of (int (m_NumValues f) + 1) = m_NumValues f + 1"
    using assms(3) by (simp add: f_def size_t_of_Suc)
  have r: "fst (ReadARawValue s) = v"
    by (simp add: ReadARawValue_def v_def)
  have add: "snd (MovingAverage_Add v f) = f'"
    unfolding MovingAverage_Add_eq c f'_def ..
  have n: "m_NumValues f' = m_NumValues f + 1" and z: "m_Size f' = m_Size f"
    by (simp_all add: f'_def)
  have d: "min (m_NumValues f + 1) (m_Size f) \<noteq> 0"
    using assms(2) by (simp add: f_def)
  have avg: "MovingAverage_Average f'
      = Inr (int32_of (cdiv (m_Total f') (int (min (m_NumValues f + 1) (m_Size f)))))"
    using d by (simp add: MovingAverage_Average_def n z Let_def)
  have "ReadWeight s =
      Inr ((real_of_int (int32_of (cdiv (m_Total f') (int (min (m_NumValues f + 1) (m_Size f)))))
              - real_of_int (m_RawTareWeight s)) * m_UnitsScaleFactor s - m_Offset s,
           s\<lparr>hx_reads := hx_reads s + 1, m_MovingAverage := f'\<rparr>)"
    by (simp only: ReadWeight_calibrated[OF assms(1)] r f_def[symmetric] add avg sum.case)
  then show ?thesis
    by (simp only: Let_def f_def f'_def v_def)
qed

lemma ReadWeight_step:
  assumes "m_IsCalibrated s" and "m_MovingAverage s = f" and "1 \<le> m_Size f"
    and "m_NumValues f = n" and "n < 4294967295"
    and "int32_of (hx_samples s (hx_reads s)) = v"
    and "(if n < m_Size f
          then f\<lparr>m_Values := (m_Values f)[n := v], m_NumValues := n + 1,
                 m_Total := int64_of (m_Total f + v)\<rparr>
          else f\<lparr>m_Values := (m_Values f)[n mod m_Size f := v], m_NumValues := n + 1,
                 m_Total := int64_of (int64_of (m_Total f + v)
                                        - m_Values f ! (n mod m_Size f))\<rparr>) = f'"
    and "int32_of (cdiv (m_Total f') (int (min (n + 1) (m_Size f)))) = a"
    and "(real_of_int a - real_of_int (m_RawTareWeight s)) * m_UnitsScaleFactor s - m_Offset s = w"
    and "hx_reads s + 1 = r"
  shows "ReadWeight s = Inr (w, s\<lparr>hx_reads := r, m_MovingAverage := f'\<rparr>)"
proof -
  have "m_IsCalibrated s" "1 \<le> m_Size (m_MovingAverage s)"
    "m_NumValues (m_MovingAverage s) < 4294967295"
    using assms by simp_all
  from ReadWeight_explicit[OF this] show ?thesis
    unfolding Let_def assms(2) assms(4) assms(6) assms(7) assms(8) assms(9) assms(10) .
qed



lemma reads_2:
  "reads 2 s = after (ReadWeight (after (ReadWeight s) s)) (after (ReadWeight s) s)"
  by (simp add: numeral_2_eq_2)

subsection \<open>The window of the filter\<close>






lemma holds_window_Reset: "holds_window (MovingAverage_Reset f) []"
  by (simp add: holds_window_def MovingAverage_Reset_def)






subsection \<open>The scale on the bench\<close>

lemma bench_batch: "batch_accepted 5 bench_cell \<and> batch_mean 5 bench_cell = 1000"
  by code_simp

lemma bench_tared_eq:
  "bench_tared = bench_cell\<lparr>hx_reads := 6, m_RawTareWeight := 1000,
                   m_MovingAverage := MovingAverage_Reset (m_MovingAverage bench_cell)\<rparr>"
proof -
  have "hx_reads bench_cell = 0" by (simp add: bench_cell_def LoadCell_new_def)
  then show ?thesis
    using bench_batch by (simp add: bench_tared_def after_def Tare_eq)
qed

lemma bench_calibrated_eq:
  "bench_calibrated =
     bench_tared\<lparr>m_MovingAverage := MovingAverage_Reset (m_MovingAverage bench_tared),
                   m_UnitsScaleFactor := 1 / 2, m_IsCalibrated := True\<rparr>"
proof -
  have t: "m_RawTareWeight bench_tared = 1000" by (simp add: bench_tared_eq)
  have "Calibrate 2000 500 bench_tared =
     Inr (True, bench_tared\<lparr>m_MovingAverage := MovingAverage_Reset (m_MovingAverage bench_tared),
                   m_UnitsScaleFactor :=
                     500 / real_of_int (uint32_of (2000 - uint32_of (m_RawTareWeight bench_tared))),
                   m_IsCalibrated := True\<rparr>)"
    by (rule Calibrate_given) (simp_all add: t uint32_of_def)
  then show ?thesis
    by (simp add: bench_calibrated_def after_def t uint32_of_def)
qed

lemma bench_narrow_fields:
  "m_IsCalibrated bench_narrow" "m_RawTareWeight bench_narrow = 1000"
  "m_UnitsScaleFactor bench_narrow = 1 / 2" "m_Offset bench_narrow = 10"
  "m_Units bench_narrow = eWuGrams" "hx_reads bench_narrow = 6"
  "hx_samples bench_narrow
     = sensor_feed [7, 1000, 1000, 1000, 1000, 1000, 1500, 1600, 1800,
                    7, 1200, 1200, 1200, 1200, 1200]"
  "m_MovingAverage bench_narrow
     = \<lparr>m_Values = replicate MAX_SIZE 0, m_NumValues = 0, m_Size = 2, m_Total = 0\<rparr>"
  by (simp_all add: bench_narrow_def SetOffset_def ResetAverage_def SetAverageInterval_def
        MovingAverage_SetSize_def MovingAverage_Size_def MovingAverage_Reset_def
        MIN_SIZE_def MAX_SIZE_def size_t_of_def Let_def case_prod_unfold
        bench_calibrated_eq bench_tared_eq bench_cell_def LoadCell_new_def default_filter)

lemma bench_first_reading:
  "ReadWeight bench_narrow =
      Inr (240, bench_narrow\<lparr>hx_reads := 7,
        m_MovingAverage :=
          \<lparr>m_Values = (replicate MAX_SIZE 0)[0 := 1500],
           m_NumValues = 1, m_Size = 2, m_Total = 1500\<rparr>\<rparr>)"
  by (rule ReadWeight_step[where n = 0 and v = 1500 and a = 1500
        and f = "\<lparr>m_Values = replicate MAX_SIZE 0, m_NumValues = 0, m_Size = 2, m_Total = 0\<rparr>"])
     (simp_all add: bench_narrow_fields sensor_feed_def int32_of_def int64_of_def cdiv_def)

lemma bench_second_reading:
  "ReadWeight (bench_narrow\<lparr>hx_reads := 7,
        m_MovingAverage :=
          \<lparr>m_Values = (replicate MAX_SIZE 0)[0 := 1500],
           m_NumValues = 1, m_Size = 2, m_Total = 1500\<rparr>\<rparr>) =
      Inr (265, bench_narrow\<lparr>hx_reads := 8,
        m_MovingAverage :=
          \<lparr>m_Values = (replicate MAX_SIZE 0)[0 := 1500, 1 := 1600],
           m_NumValues = 2, m_Size = 2, m_Total = 3100\<rparr>\<rparr>)"
  by (rule ReadWeight_step[where n = 1 and v = 1600 and a = 1550
        and f = "\<lparr>m_Values = (replicate MAX_SIZE 0)[0 := 1500],
                  m_NumValues = 1, m_Size = 2, m_Total = 1500\<rparr>", THEN trans])
     (simp_all add: bench_narrow_fields sensor_feed_def int32_of_def int64_of_def cdiv_def)

lemma windowed_cell_eq:
  "windowed_cell =
     bench_narrow\<lparr>hx_reads := 8,
        m_MovingAverage :=
          \<lparr>m_Values = (replicate MAX_SIZE 0)[0 := 1500, 1 := 1600],
           m_NumValues = 2, m_Size = 2, m_Total = 3100\<rparr>\<rparr>"
  by (simp only: windowed_cell_def reads_2 after_def bench_first_reading bench_second_reading
        sum.case prod.case)

lemma windowed_cell_fields:
  "m_IsCalibrated windowed_cell" "m_RawTareWeight windowed_cell = 1000"
  "m_UnitsScaleFactor windowed_cell = 1 / 2" "m_Offset windowed_cell = 10"
  "m_Units windowed_cell = eWuGrams" "hx_reads windowed_cell = 8"
  "hx_samples windowed_cell
     = sensor_feed [7, 1000, 1000, 1000, 1000, 1000, 1500, 1600, 1800,
                    7, 1200, 1200, 1200, 1200, 1200]"
  "m_MovingAverage windowed_cell
     = \<lparr>m_Values = (replicate MAX_SIZE 0)[0 := 1500, 1 := 1600],
        m_NumValues = 2, m_Size = 2, m_Total = 3100\<rparr>"
  by (simp_all add: windowed_cell_eq bench_narrow_fields)


lemma windowed_cell_reading:
  "ReadWeight windowed_cell =
     Inr (340, windowed_cell\<lparr>hx_reads := 9,
        m_MovingAverage :=
          \<lparr>m_Values = (replicate MAX_SIZE 0)[0 := 1500, 1 := 1600, 0 := 1800],
           m_NumValues = 3, m_Size = 2, m_Total = 3400\<rparr>\<rparr>)"
  by (rule ReadWeight_step[where n = 2 and v = 1800 and a = 1700
        and f = "\<lparr>m_Values = (replicate MAX_SIZE 0)[0 := 1500, 1 := 1600],
                  m_NumValues = 2, m_Size = 2, m_Total = 3100\<rparr>"])
     (simp_all add: windowed_cell_fields sensor_feed_def int32_of_def int64_of_def cdiv_def
        MAX_SIZE_def)

lemma measured_cell_eq:
  "measured_cell =
     windowed_cell\<lparr>hx_reads := 9,
        m_MovingAverage :=
          \<lparr>m_Values = (replicate MAX_SIZE 0)[0 := 1500, 1 := 1600, 0 := 1800],
           m_NumValues = 3, m_Size = 2, m_Total = 3400\<rparr>\<rparr>"
  by (simp only: measured_cell_def windowed_cell_reading after_def sum.case prod.case)

lemma measured_cell_fields:
  "m_IsCalibrated measured_cell" "m_RawTareWeight measured_cell = 1000"
  "hx_reads measured_cell = 9"
  "hx_samples measured_cell
     = sensor_feed [7, 1000, 1000, 1000, 1000, 1000, 1500, 1600, 1800,
                    7, 1200, 1200, 1200, 1200, 1200]"
  "m_MovingAverage measured_cell
     = \<lparr>m_Values = (replicate MAX_SIZE 0)[0 := 1500, 1 := 1600, 0 := 1800],
        m_NumValues = 3, m_Size = 2, m_Total = 3400\<rparr>"
  by (simp_all add: measured_cell_eq windowed_cell_fields)

lemma measured_batch: "batch_accepted 5 measured_cell \<and> batch_mean 5 measured_cell = 1200"
proof -
  have "batch 5 measured_cell = batch 5 (bench_cell\<lparr>hx_reads := 9\<rparr>)"
    by (rule batch_cong) (simp_all add: measured_cell_fields bench_cell_def LoadCell_new_def)
  moreover have "batch_accepted 5 (bench_cell\<lparr>hx_reads := 9\<rparr>)
      \<and> batch_mean 5 (bench_cell\<lparr>hx_reads := 9\<rparr>) = 1200"
    by code_simp
  ultimately show ?thesis
    using batch_accepted_cong[of 5 measured_cell "bench_cell\<lparr>hx_reads := 9\<rparr>"] by simp
qed

subsection \<open>A successful Tare\<close>

lemma Tare_true_explicit:
  assumes "Tare count s = Inr (True, s1)"
  shows "s1 = s\<lparr>hx_reads := hx_reads s + count + 1,
                 m_RawTareWeight := batch_mean count s,
                 m_MovingAverage := (m_MovingAverage s)\<lparr>m_Total := 0, m_NumValues := 0\<rparr>\<rparr>"
    and "batch_mean count s \<noteq> 0"
proof -
  have c: "1 \<le> count"
  proof (rule ccontr)
    assume "\<not> 1 \<le> count"
    then have "count = 0" by simp
    with assms show False
      by (simp add: Tare_def ReadRawAverage_def case_prod_unfold)
  qed
  from assms have a: "batch_accepted count s"
    by (simp add: Tare_eq[OF c] split: if_splits)
  from assms a show "s1 = s\<lparr>hx_reads := hx_reads s + count + 1,
                 m_RawTareWeight := batch_mean count s,
                 m_MovingAverage := (m_MovingAverage s)\<lparr>m_Total := 0, m_NumValues := 0\<rparr>\<rparr>"
    by (simp add: Tare_eq[OF c] MovingAverage_Reset_def)
  from batch_accepted_pos[OF c a] show "batch_mean count s \<noteq> 0" by simp
qed

section \<open>The units of the reachable states\<close>

text \<open>
  No operation stores a unit without a factor: the constructor sets grams,
  \<open>SetUnits\<close> stores the new unit only where both factors are non-zero, \<open>Save\<close> writes
  the active unit, \<open>Restore\<close> copies a unit that \<open>Save\<close> wrote, and the other
  operations leave the unit alone.
\<close>

lemma Init_units: "m_Units (snd (Init pName s)) = m_Units s"
  by (simp add: Init_def IsPresent_def ReadARawValue_def case_prod_unfold Let_def
        split: option.splits)

lemma IsPresent_units: "m_Units (snd (IsPresent s)) = m_Units s"
  by (simp add: IsPresent_def ReadARawValue_def case_prod_unfold)

lemma SetGain_units: "m_Units (snd (SetGain gain s)) = m_Units s"
  by (simp add: SetGain_eq)

lemma ReadRawAverage_units: "ReadRawAverage count s = Inr (v, s') \<Longrightarrow> m_Units s' = m_Units s"
  by (drule ReadRawAverage_state) simp

lemma ReadRawAverage_fault: "ReadRawAverage count s = Inl e \<Longrightarrow> e = DivideByZero"
  by (auto simp: ReadRawAverage_def case_prod_unfold Let_def split: if_splits)

lemma Tare_units: "Tare count s = Inr (ok, s') \<Longrightarrow> m_Units s' = m_Units s"
  by (cases ok) (auto dest: Tare_true_state Tare_false_state)

lemma Calibrate_finish_units:
  "Calibrate_finish raw cooked s = Inr (ok, s') \<Longrightarrow> m_Units s' = m_Units s"
  "Calibrate_finish raw cooked s = Inl (NonFiniteDouble s') \<Longrightarrow> m_Units s' = m_Units s"
  by (auto simp: Calibrate_finish_def Let_def split: if_splits)

lemma Calibrate_units:
  "Calibrate raw cooked s = Inr (ok, s') \<Longrightarrow> m_Units s' = m_Units s"
  "Calibrate raw cooked s = Inl (NonFiniteDouble s') \<Longrightarrow> m_Units s' = m_Units s"
  by (auto simp: Calibrate_def split: if_splits sum.splits
        dest!: ReadRawAverage_state ReadRawAverage_fault Calibrate_finish_units)

lemma SetUnits_units:
  "GetBaseUnitsFactor (m_Units s) \<noteq> 0 \<Longrightarrow> GetBaseUnitsFactor (m_Units (snd (SetUnits u s))) \<noteq> 0"
  by (simp add: SetUnits_def Let_def)

lemma ReadWeight_units: "ReadWeight s = Inr (w, s') \<Longrightarrow> m_Units s' = m_Units s"
  by (auto simp: ReadWeight_def ReadAndAverageRawWeight_eq split: if_splits sum.splits)

lemma SetAverageInterval_units: "m_Units (snd (SetAverageInterval interval s)) = m_Units s"
  by (simp add: SetAverageInterval_def case_prod_unfold Let_def)

lemma Restore_units:
  "units_valid s nvs \<Longrightarrow> GetBaseUnitsFactor (m_Units (snd (Restore s nvs))) \<noteq> 0"
  by (auto simp: units_valid_def Restore_def SetGain_eq case_prod_unfold Let_def
        split: option.splits)

lemma Save_units:
  "units_valid s nvs \<Longrightarrow> units_valid s (snd (Save s nvs))"
  by (auto simp: units_valid_def Save_def currentState_def split: option.splits if_splits)

lemma Reset_units:
  "units_valid s nvs \<Longrightarrow> units_valid s (snd (Reset s nvs))"
  by (auto simp: units_valid_def Reset_def split: option.splits if_splits)

lemma reachable_units_valid: "reachable s nvs \<Longrightarrow> units_valid s nvs"
proof (induction rule: reachable.induct)
  case (constructed samples ready gain)
  show ?case by (simp add: units_valid_def LoadCell_new_def)
next
  case (constructed_again s nvs samples ready gain)
  then show ?case by (simp add: units_valid_def LoadCell_new_def)
next
  case (after_Init s nvs pName)
  then show ?case by (simp add: units_valid_def Init_units)
next
  case (after_IsPresent s nvs)
  then show ?case by (simp add: units_valid_def IsPresent_units)
next
  case (after_SetGain s nvs gain)
  then show ?case by (simp add: units_valid_def SetGain_units)
next
  case (after_ReadRawAverage s nvs count v s')
  then show ?case by (simp add: units_valid_def ReadRawAverage_units)
next
  case (after_Tare s nvs count ok s')
  then show ?case by (simp add: units_valid_def Tare_units)
next
  case (after_Calibrate s nvs rawCalWeight cookedCalWeight ok s')
  then show ?case by (simp add: units_valid_def Calibrate_units(1))
next
  case (after_Calibrate_non_finite s nvs rawCalWeight cookedCalWeight s' x)
  then show ?case by (simp add: units_valid_def Calibrate_units(2))
next
  case (after_SetUnits s nvs u)
  then show ?case by (simp add: units_valid_def SetUnits_units)
next
  case (after_ReadWeight s nvs w s')
  then show ?case by (simp add: units_valid_def ReadWeight_units)
next
  case (after_SetAverageInterval s nvs interval)
  then show ?case by (simp add: units_valid_def SetAverageInterval_units)
next
  case (after_ResetAverage s nvs)
  then show ?case by (simp add: units_valid_def ResetAverage_def)
next
  case (after_SetOffset s nvs newOffset)
  then show ?case by (simp add: units_valid_def SetOffset_def ResetAverage_def)
next
  case (after_Save s nvs)
  then show ?case by (simp add: Save_units)
next
  case (after_Restore s nvs)
  then show ?case using Restore_units[of s nvs] by (simp add: units_valid_def)
next
  case (after_Reset s nvs)
  then show ?case by (simp add: Reset_units)
qed

lemma SetUnits_invalid_new_unit:
  "GetBaseUnitsFactor (m_Units s) \<noteq> 0 \<Longrightarrow> GetBaseUnitsFactor u = 0 \<Longrightarrow>
   SetUnits u s = (False, s)"
  by (auto simp: SetUnits_def Let_def)

lemma calibrated_cell_reachable: "reachable calibrated_cell (\<lambda>name. None)"
proof -
  have l: "reachable level_cell (\<lambda>name. None)"
    unfolding level_cell_def by (rule reachable.constructed)
  have "Tare 5 level_cell = Inr (True, tared_cell)"
    using level_batch by (simp add: Tare_eq tared_cell_eq level_cell_fields)
  with l have t: "reachable tared_cell (\<lambda>name. None)"
    by (rule reachable.after_Tare)
  have m: "m_RawTareWeight tared_cell = 1000" by (simp add: tared_cell_eq)
  have "Calibrate 2000 500 tared_cell =
     Inr (True, tared_cell\<lparr>m_MovingAverage := MovingAverage_Reset (m_MovingAverage tared_cell),
                   m_UnitsScaleFactor :=
                     500 / real_of_int (uint32_of (2000 - uint32_of (m_RawTareWeight tared_cell))),
                   m_IsCalibrated := True\<rparr>)"
    by (rule Calibrate_given) (simp_all add: m uint32_of_def)
  then have "Calibrate 2000 500 tared_cell = Inr (True, calibrated_cell)"
    by (simp add: calibrated_cell_eq m uint32_of_def)
  with t show ?thesis
    by (rule reachable.after_Calibrate)
qed

section \<open>The claims\<close>

text \<open>
  C1, as the code has it: for every batch of \<open>count \<ge> 1\<close> samples with truncated
  integer mean \<open>m\<close>, maximum \<open>max\<close> and minimum \<open>min\<close>, \<open>ReadRawAverage count\<close> returns
  \<open>m\<close> whenever \<open>max - m < m / 800\<close> and \<open>m - min < m / 800\<close> (both strict) and the upper
  limit \<open>m + m / 800\<close> does not exceed \<open>INT_MAX\<close>, and it returns 0 for every batch
  that violates either strict bound; in both cases it has read the throwaway sample
  and the batch.
\<close>

theorem ReadRawAverage_strict_band:
  assumes "1 \<le> count"
  shows "(Max (set (batch count s)) - batch_mean count s < cdiv (batch_mean count s) 800
          \<and> batch_mean count s - Min (set (batch count s)) < cdiv (batch_mean count s) 800
          \<and> batch_mean count s + cdiv (batch_mean count s) 800 \<le> INT_MAX
          \<longrightarrow> ReadRawAverage count s
                = Inr (batch_mean count s, s\<lparr>hx_reads := hx_reads s + count + 1\<rparr>))
       \<and> (\<not> (Max (set (batch count s)) - batch_mean count s < cdiv (batch_mean count s) 800
               \<and> batch_mean count s - Min (set (batch count s))
                   < cdiv (batch_mean count s) 800)
          \<longrightarrow> ReadRawAverage count s
                = Inr (0, s\<lparr>hx_reads := hx_reads s + count + 1\<rparr>))"
proof (intro conjI impI)
  assume a: "Max (set (batch count s)) - batch_mean count s < cdiv (batch_mean count s) 800
          \<and> batch_mean count s - Min (set (batch count s)) < cdiv (batch_mean count s) 800
          \<and> batch_mean count s + cdiv (batch_mean count s) 800 \<le> INT_MAX"
  then have hi: "Max (set (batch count s)) - batch_mean count s
                   < cdiv (batch_mean count s) LIMIT_DIVISOR"
    and lo: "batch_mean count s - Min (set (batch count s))
                   < cdiv (batch_mean count s) LIMIT_DIVISOR"
    and ov: "batch_mean count s + cdiv (batch_mean count s) LIMIT_DIVISOR \<le> INT_MAX"
    by (simp_all add: LIMIT_DIVISOR_def)
  have "uint32_of (batch_mean count s) = batch_mean count s"
    using accepts_strict_band(2)[OF assms hi lo ov] batch_mean_range[OF assms, of s]
    by (intro uint32_of_id) simp_all
  then show "ReadRawAverage count s
                = Inr (batch_mean count s, s\<lparr>hx_reads := hx_reads s + count + 1\<rparr>)"
    by (simp only: ReadRawAverage_eq[OF assms] if_P[OF accepts_strict_band(1)[OF assms hi lo ov]])
next
  assume "\<not> (Max (set (batch count s)) - batch_mean count s < cdiv (batch_mean count s) 800
               \<and> batch_mean count s - Min (set (batch count s))
                   < cdiv (batch_mean count s) 800)"
  then have out: "\<not> (Max (set (batch count s)) - batch_mean count s
                    < cdiv (batch_mean count s) LIMIT_DIVISOR
                  \<and> batch_mean count s - Min (set (batch count s))
                    < cdiv (batch_mean count s) LIMIT_DIVISOR)"
    by (simp add: LIMIT_DIVISOR_def)
  show "ReadRawAverage count s = Inr (0, s\<lparr>hx_reads := hx_reads s + count + 1\<rparr>)"
    by (simp only: ReadRawAverage_eq[OF assms] if_not_P[OF rejects_outside_band[OF assms out]])
       (simp add: uint32_of_def)
qed

theorem ReadRawAverage_strict_band_witness:
  "(1::nat) \<le> 5
   \<and> (Max (set (batch 5 steady_cell)) - batch_mean 5 steady_cell
          < cdiv (batch_mean 5 steady_cell) 800
        \<and> batch_mean 5 steady_cell - Min (set (batch 5 steady_cell))
          < cdiv (batch_mean 5 steady_cell) 800
        \<and> batch_mean 5 steady_cell + cdiv (batch_mean 5 steady_cell) 800 \<le> INT_MAX)
   \<and> batch_mean 5 steady_cell = 8000
   \<and> ReadRawAverage 5 steady_cell
       = Inr (8000, steady_cell\<lparr>hx_reads := hx_reads steady_cell + 5 + 1\<rparr>)
   \<and> \<not> (Max (set (batch 5 edge_cell)) - batch_mean 5 edge_cell
            < cdiv (batch_mean 5 edge_cell) 800
          \<and> batch_mean 5 edge_cell - Min (set (batch 5 edge_cell))
            < cdiv (batch_mean 5 edge_cell) 800)
   \<and> ReadRawAverage 5 edge_cell
       = Inr (0, edge_cell\<lparr>hx_reads := hx_reads edge_cell + 5 + 1\<rparr>)"
proof -
  have h: "(1::nat) \<le> 5" by simp
  have a: "Max (set (batch 5 steady_cell)) - batch_mean 5 steady_cell
          < cdiv (batch_mean 5 steady_cell) 800
        \<and> batch_mean 5 steady_cell - Min (set (batch 5 steady_cell))
          < cdiv (batch_mean 5 steady_cell) 800
        \<and> batch_mean 5 steady_cell + cdiv (batch_mean 5 steady_cell) 800 \<le> INT_MAX"
    by code_simp
  have m: "batch_mean 5 steady_cell = 8000" by code_simp
  have b: "\<not> (Max (set (batch 5 edge_cell)) - batch_mean 5 edge_cell
            < cdiv (batch_mean 5 edge_cell) 800
          \<and> batch_mean 5 edge_cell - Min (set (batch 5 edge_cell))
            < cdiv (batch_mean 5 edge_cell) 800)"
    by code_simp
  have r1: "ReadRawAverage 5 steady_cell
       = Inr (8000, steady_cell\<lparr>hx_reads := hx_reads steady_cell + 5 + 1\<rparr>)"
    using ReadRawAverage_strict_band [OF h, of steady_cell] a m by simp
  have r2: "ReadRawAverage 5 edge_cell
       = Inr (0, edge_cell\<lparr>hx_reads := hx_reads edge_cell + 5 + 1\<rparr>)"
    using ReadRawAverage_strict_band [OF h, of edge_cell] b by simp
  from h a m b r1 r2 show ?thesis by blast
qed

text \<open>
  C1 as stated, with the bounds \<open>max - m \<le> m / 800\<close> and \<open>m - min \<le> m / 800\<close>, fails on
  the batch 1000, 1000, 1000, 1001, 999: its mean is 1000, both bounds hold with
  equality, and the call returns 0.
\<close>

theorem ReadRawAverage_band_counterexample:
  "batch_mean 5 edge_cell = 1000
   \<and> Max (set (batch 5 edge_cell)) - batch_mean 5 edge_cell \<le> cdiv (batch_mean 5 edge_cell) 800
   \<and> batch_mean 5 edge_cell - Min (set (batch 5 edge_cell)) \<le> cdiv (batch_mean 5 edge_cell) 800
   \<and> (case ReadRawAverage 5 edge_cell of Inl e \<Rightarrow> False | Inr (v, s') \<Rightarrow> v = 0)"
  by code_simp




text \<open>
  C3, as the code has it: the batch 1000, 1001, 999, 1000, 1002 has mean 1000 and
  limits 1001 and 999, so the check rejects it, \<open>ReadRawAverage\<close> returns 0 and \<open>Tare\<close>
  returns false, storing nothing. The batch 1000, 1000, 1000, 1000, 1000 passes and
  \<open>Tare\<close> stores the tare offset 1000; \<open>Calibrate 2000 500\<close> then sets the scale factor
  to \<open>500 / (2000 - 1000)\<close>, a half; and with the filter averaging to 1500 and the
  display offset 0, \<open>ReadWeight\<close> returns 250.
\<close>

theorem tare_calibrate_read_scenario:
  "batch 5 spec_cell = [1000, 1001, 999, 1000, 1002]
   \<and> ReadRawAverage 5 spec_cell = Inr (0, spec_cell\<lparr>hx_reads := 6\<rparr>)
   \<and> Tare 5 spec_cell = Inr (False, spec_cell\<lparr>hx_reads := 6\<rparr>)
   \<and> batch 5 level_cell = [1000, 1000, 1000, 1000, 1000]
   \<and> Tare 5 level_cell = Inr (True, tared_cell)
   \<and> m_RawTareWeight tared_cell = 1000
   \<and> Calibrate 2000 500 tared_cell = Inr (True, calibrated_cell)
   \<and> m_UnitsScaleFactor calibrated_cell = 500 / (2000 - 1000)
   \<and> m_Offset calibrated_cell = 0
   \<and> (case ReadWeight calibrated_cell of
         Inl e \<Rightarrow> False
       | Inr (w, s') \<Rightarrow> MovingAverage_Average (m_MovingAverage s') = Inr 1500 \<and> w = 250)"
proof -
  have b: "batch 5 level_cell = [1000, 1000, 1000, 1000, 1000]" by code_simp
  have r: "ReadRawAverage 5 spec_cell = Inr (0, spec_cell\<lparr>hx_reads := 6\<rparr>)"
    using spec_batch by (simp add: ReadRawAverage_result)
  have t1: "Tare 5 spec_cell = Inr (False, spec_cell\<lparr>hx_reads := 6\<rparr>)"
    using spec_batch by (simp add: Tare_eq)
  have t2: "Tare 5 level_cell = Inr (True, tared_cell)"
    using level_batch by (simp add: Tare_eq tared_cell_eq level_cell_fields)
  have t: "m_RawTareWeight tared_cell = 1000" by (simp add: tared_cell_eq)
  have "Calibrate 2000 500 tared_cell =
     Inr (True, tared_cell\<lparr>m_MovingAverage := MovingAverage_Reset (m_MovingAverage tared_cell),
                   m_UnitsScaleFactor :=
                     500 / real_of_int (uint32_of (2000 - uint32_of (m_RawTareWeight tared_cell))),
                   m_IsCalibrated := True\<rparr>)"
    by (rule Calibrate_given) (simp_all add: t uint32_of_def)
  then have c: "Calibrate 2000 500 tared_cell = Inr (True, calibrated_cell)"
    by (simp add: calibrated_cell_eq t uint32_of_def)
  from b r t1 t2 t c spec_batch show ?thesis
    by (simp add: calibrated_cell_fields calibrated_cell_reading first_average)
qed

text \<open>
  C3 as stated fails at its first step: on the batch 1000, 1001, 999, 1000, 1002
  \<open>Tare\<close> returns false and the tare offset stays 0.
\<close>

theorem spec_batch_rejected_counterexample:
  "batch 5 spec_cell = [1000, 1001, 999, 1000, 1002]
   \<and> m_RawTareWeight spec_cell = 0
   \<and> (case Tare 5 spec_cell of
         Inl e \<Rightarrow> False
       | Inr (ok, s') \<Rightarrow> \<not> ok \<and> m_RawTareWeight s' = 0)"
  using spec_batch by (simp add: Tare_eq spec_cell_def LoadCell_new_def)

text \<open>
  C4, as the code has it: after a gain change that \<open>SetGain\<close> reports as done the
  calibrated flag is false. A successful \<open>Tare\<close> stores the mean of its batch, which
  is not 0, as the tare offset, resets the filter (total and counter 0) and leaves
  every other field but the position of the sensor as it was: the calibrated flag,
  the scale factor, the display offset and the units are unchanged. A failed \<open>Tare\<close>
  and a failed \<open>Calibrate\<close> leave the tare offset, the scale factor, the calibrated
  flag, the display offset and the units unchanged.
\<close>

theorem calibration_flag_transitions:
  "(fst (SetGain gain s) \<longrightarrow> \<not> m_IsCalibrated (snd (SetGain gain s)))
   \<and> (Tare count s = Inr (True, s1) \<longrightarrow>
        s1 = s\<lparr>hx_reads := hx_reads s + count + 1,
               m_RawTareWeight := batch_mean count s,
               m_MovingAverage := (m_MovingAverage s)\<lparr>m_Total := 0, m_NumValues := 0\<rparr>\<rparr>
        \<and> batch_mean count s \<noteq> 0
        \<and> m_IsCalibrated s1 = m_IsCalibrated s \<and> m_UnitsScaleFactor s1 = m_UnitsScaleFactor s
        \<and> m_Offset s1 = m_Offset s \<and> m_Units s1 = m_Units s)
   \<and> (Tare count s = Inr (False, s2) \<longrightarrow> calibration_state s2 = calibration_state s)
   \<and> (Calibrate rawCalWeight cookedCalWeight s = Inr (False, s3) \<longrightarrow>
        calibration_state s3 = calibration_state s)"
proof -
  have g: "\<not> m_IsCalibrated (snd (SetGain gain s))" if "fst (SetGain gain s)"
    using that by (auto simp: SetGain_eq split: if_splits)
  have t1: "s1 = s\<lparr>hx_reads := hx_reads s + count + 1,
               m_RawTareWeight := batch_mean count s,
               m_MovingAverage := (m_MovingAverage s)\<lparr>m_Total := 0, m_NumValues := 0\<rparr>\<rparr>
        \<and> batch_mean count s \<noteq> 0
        \<and> m_IsCalibrated s1 = m_IsCalibrated s \<and> m_UnitsScaleFactor s1 = m_UnitsScaleFactor s
        \<and> m_Offset s1 = m_Offset s \<and> m_Units s1 = m_Units s"
    if "Tare count s = Inr (True, s1)"
    using Tare_true_explicit[OF that] by simp
  have t2: "calibration_state s2 = calibration_state s" if "Tare count s = Inr (False, s2)"
    using Tare_false_state[OF that] by (simp add: calibration_state_def)
  have c: "calibration_state s3 = calibration_state s"
    if "Calibrate rawCalWeight cookedCalWeight s = Inr (False, s3)"
    using Calibrate_false_state[OF that] by (auto simp: calibration_state_def)
  from g t1 t2 c show ?thesis by blast
qed

theorem calibration_flag_transitions_witness:
  "fst (SetGain 64 level_cell) \<and> \<not> m_IsCalibrated (snd (SetGain 64 level_cell))
   \<and> m_IsCalibrated measured_cell \<and> m_RawTareWeight measured_cell = 1000
   \<and> m_MovingAverage measured_cell
        = \<lparr>m_Values = (replicate MAX_SIZE 0)[0 := 1500, 1 := 1600, 0 := 1800],
           m_NumValues = 3, m_Size = 2, m_Total = 3400\<rparr>
   \<and> Tare 5 measured_cell
       = Inr (True, measured_cell\<lparr>hx_reads := 15, m_RawTareWeight := 1200,
                      m_MovingAverage :=
                        \<lparr>m_Values = (replicate MAX_SIZE 0)[0 := 1500, 1 := 1600, 0 := 1800],
                         m_NumValues = 0, m_Size = 2, m_Total = 0\<rparr>\<rparr>)
   \<and> measured_cell\<lparr>hx_reads := 15, m_RawTareWeight := 1200,
                      m_MovingAverage :=
                        \<lparr>m_Values = (replicate MAX_SIZE 0)[0 := 1500, 1 := 1600, 0 := 1800],
                         m_NumValues = 0, m_Size = 2, m_Total = 0\<rparr>\<rparr>
       = measured_cell\<lparr>hx_reads := hx_reads measured_cell + 5 + 1,
               m_RawTareWeight := batch_mean 5 measured_cell,
               m_MovingAverage :=
                 (m_MovingAverage measured_cell)\<lparr>m_Total := 0, m_NumValues := 0\<rparr>\<rparr>
   \<and> m_IsCalibrated
        (measured_cell\<lparr>hx_reads := 15, m_RawTareWeight := 1200,
                      m_MovingAverage :=
                        \<lparr>m_Values = (replicate MAX_SIZE 0)[0 := 1500, 1 := 1600, 0 := 1800],
                         m_NumValues = 0, m_Size = 2, m_Total = 0\<rparr>\<rparr>)
   \<and> Tare 5 spec_cell = Inr (False, spec_cell\<lparr>hx_reads := hx_reads spec_cell + 5 + 1\<rparr>)
   \<and> calibration_state (spec_cell\<lparr>hx_reads := hx_reads spec_cell + 5 + 1\<rparr>)
       = calibration_state spec_cell
   \<and> Calibrate 2000 500 level_cell = Inr (False, level_cell)
   \<and> calibration_state level_cell = calibration_state level_cell"
proof -
  have g: "fst (SetGain 64 level_cell)"
    by (simp add: SetGain_eq level_cell_fields)
  have t1: "Tare 5 measured_cell
       = Inr (True, measured_cell\<lparr>hx_reads := 15, m_RawTareWeight := 1200,
                      m_MovingAverage :=
                        \<lparr>m_Values = (replicate MAX_SIZE 0)[0 := 1500, 1 := 1600, 0 := 1800],
                         m_NumValues = 0, m_Size = 2, m_Total = 0\<rparr>\<rparr>)"
    using measured_batch
    by (simp add: Tare_eq measured_cell_fields MovingAverage_Reset_def)
  have t2: "Tare 5 spec_cell = Inr (False, spec_cell\<lparr>hx_reads := hx_reads spec_cell + 5 + 1\<rparr>)"
    using spec_batch by (simp add: Tare_eq)
  have c: "Calibrate 2000 500 level_cell = Inr (False, level_cell)"
    by (simp add: Calibrate_def level_cell_fields)
  from g t1 t2 c measured_cell_fields
    calibration_flag_transitions [where s = level_cell and gain = 64
        and rawCalWeight = 2000 and cookedCalWeight = 500 and ?s3.0 = level_cell]
    calibration_flag_transitions [where s = measured_cell and count = 5
        and ?s1.0 = "measured_cell\<lparr>hx_reads := 15, m_RawTareWeight := 1200,
                      m_MovingAverage :=
                        \<lparr>m_Values = (replicate MAX_SIZE 0)[0 := 1500, 1 := 1600, 0 := 1800],
                         m_NumValues = 0, m_Size = 2, m_Total = 0\<rparr>\<rparr>"]
    calibration_flag_transitions [where s = spec_cell and count = 5
        and ?s2.0 = "spec_cell\<lparr>hx_reads := hx_reads spec_cell + 5 + 1\<rparr>"]
  show ?thesis by simp
qed

text \<open>
  C4 as stated fails for \<open>Tare\<close>: on a calibrated scale a successful \<open>Tare\<close> leaves the
  calibrated flag true.
\<close>

theorem Tare_keeps_calibrated_counterexample:
  "m_IsCalibrated calibrated_cell
   \<and> (case Tare 5 calibrated_cell of Inl e \<Rightarrow> False | Inr (ok, s') \<Rightarrow> ok \<and> m_IsCalibrated s')"
  using retare_batch by (simp add: Tare_eq calibrated_cell_fields)

text \<open>
  C5: \<open>Calibrate\<close>, called while the tare offset is 0, returns false and leaves the
  whole state unchanged.
\<close>

theorem Calibrate_untared:
  "m_RawTareWeight s = 0 \<Longrightarrow> Calibrate rawCalWeight cookedCalWeight s = Inr (False, s)"
  by (simp add: Calibrate_def)

theorem Calibrate_untared_witness:
  "m_RawTareWeight level_cell = 0 \<and> Calibrate 2000 500 level_cell = Inr (False, level_cell)"
proof -
  have h: "m_RawTareWeight level_cell = 0" by code_simp
  show ?thesis using h Calibrate_untared [OF h, of 2000 500] by simp
qed

text \<open>
  C6 fails on the code where the saved gain differs from the gain of the fresh
  instance: \<open>Restore\<close> assigns the calibrated flag and then calls \<open>SetGain\<close>, which
  clears it. A scale set to gain 64, tared, calibrated and saved is restored into a
  fresh instance (gain 128) with its gain, tare offset and scale factor, and with
  the calibrated flag false.
\<close>

theorem Restore_drops_calibrated_flag:
  "m_Gain saved_cell = 64 \<and> m_IsCalibrated saved_cell
   \<and> fst (Save saved_cell (\<lambda>name. None))
   \<and> fst (Restore fresh_cell saved_nvs)
   \<and> m_Gain restored_cell = 64
   \<and> m_RawTareWeight restored_cell = m_RawTareWeight saved_cell
   \<and> m_UnitsScaleFactor restored_cell = m_UnitsScaleFactor saved_cell
   \<and> \<not> m_IsCalibrated restored_cell"
proof -
  have s: "saved_nvs = (\<lambda>name. None)(''scale'' \<mapsto> currentState saved_cell)"
    by (simp add: saved_nvs_def Save_named[OF saved_cell_fields(1)])
  have n: "saved_nvs ''scale'' = Some (currentState saved_cell)"
    by (simp add: s)
  show ?thesis
    using Restore_fields[where t = fresh_cell and nvs = saved_nvs and name = "''scale''"
        and c = "currentState saved_cell", OF fresh_cell_fields(1) n]
    by (simp add: restored_cell_def Save_named[OF saved_cell_fields(1)] saved_cell_fields
          fresh_cell_fields currentState_def)
qed

text \<open>
  C7: where the base-unit factors of the current and of the new unit are both
  non-zero, \<open>SetUnits\<close> succeeds, multiplies the display offset and the scale factor by
  \<open>k = GetBaseUnitsFactor old / GetBaseUnitsFactor new\<close> and makes the new unit the
  active one; the weight that the next read reports, converted to grams, is the
  same after the change as before it. (A \<open>double\<close> is a \<open>real\<close> here.)
\<close>

theorem SetUnits_rescales:
  assumes "GetBaseUnitsFactor (m_Units s) \<noteq> 0" and "GetBaseUnitsFactor u \<noteq> 0"
  shows "fst (SetUnits u s)
     \<and> m_Offset (snd (SetUnits u s))
         = m_Offset s * (GetBaseUnitsFactor (m_Units s) / GetBaseUnitsFactor u)
     \<and> m_UnitsScaleFactor (snd (SetUnits u s))
         = m_UnitsScaleFactor s * (GetBaseUnitsFactor (m_Units s) / GetBaseUnitsFactor u)
     \<and> m_Units (snd (SetUnits u s)) = u
     \<and> (m_IsCalibrated s \<longrightarrow>
          grams_of_reading (ReadWeight (snd (SetUnits u s))) = grams_of_reading (ReadWeight s))"
proof (cases "u = m_Units s")
  case True
  then show ?thesis
    using assms by (simp add: SetUnits_valid)
next
  case False
  then show ?thesis
    using assms
    by (simp add: SetUnits_valid grams_of_reading_def ReadWeight_def
          ReadAndAverageRawWeight_def ReadARawValue_def case_prod_unfold Let_def
          split: sum.splits)
       (simp add: field_simps)
qed

theorem SetUnits_rescales_witness:
  "GetBaseUnitsFactor (m_Units calibrated_cell) \<noteq> 0 \<and> GetBaseUnitsFactor eWuPounds \<noteq> 0
   \<and> fst (SetUnits eWuPounds calibrated_cell)
   \<and> m_Offset (snd (SetUnits eWuPounds calibrated_cell))
       = m_Offset calibrated_cell
           * (GetBaseUnitsFactor (m_Units calibrated_cell) / GetBaseUnitsFactor eWuPounds)
   \<and> m_UnitsScaleFactor (snd (SetUnits eWuPounds calibrated_cell))
       = m_UnitsScaleFactor calibrated_cell
           * (GetBaseUnitsFactor (m_Units calibrated_cell) / GetBaseUnitsFactor eWuPounds)
   \<and> m_Units (snd (SetUnits eWuPounds calibrated_cell)) = eWuPounds
   \<and> m_IsCalibrated calibrated_cell
   \<and> grams_of_reading (ReadWeight (snd (SetUnits eWuPounds calibrated_cell))) = Inr 250"
proof -
  have h1: "GetBaseUnitsFactor (m_Units calibrated_cell) \<noteq> 0"
    by (simp add: calibrated_cell_fields)
  have h2: "GetBaseUnitsFactor eWuPounds \<noteq> 0"
    by (simp add: GRAMS_PER_POUND_def)
  have c: "m_IsCalibrated calibrated_cell"
    by (simp add: calibrated_cell_fields)
  have r: "grams_of_reading (ReadWeight calibrated_cell) = Inr 250"
    by (simp add: grams_of_reading_def calibrated_cell_reading calibrated_cell_fields)
  show ?thesis
    using h1 h2 c r SetUnits_rescales [OF h1 h2] by simp
qed

text \<open>
  C8: on every state the code reaches, a call \<open>SetUnits u\<close> where the base-unit
  factor of \<open>u\<close> or of the current unit is 0 returns false and changes nothing. (The
  current unit of a reachable state always has a factor, so the call is one with
  an invalid \<open>u\<close>.)
\<close>

theorem SetUnits_invalid:
  assumes "reachable s nvs"
    and "GetBaseUnitsFactor u = 0 \<or> GetBaseUnitsFactor (m_Units s) = 0"
  shows "SetUnits u s = (False, s)"
proof -
  have v: "GetBaseUnitsFactor (m_Units s) \<noteq> 0"
    using reachable_units_valid[OF assms(1)] by (simp add: units_valid_def)
  with assms(2) have "GetBaseUnitsFactor u = 0" by simp
  with v show ?thesis by (rule SetUnits_invalid_new_unit)
qed

theorem SetUnits_invalid_witness:
  "reachable calibrated_cell (\<lambda>name. None)
   \<and> (GetBaseUnitsFactor eWuBadVal = 0 \<or> GetBaseUnitsFactor (m_Units calibrated_cell) = 0)
   \<and> SetUnits eWuBadVal calibrated_cell = (False, calibrated_cell)"
proof -
  have h: "GetBaseUnitsFactor eWuBadVal = 0 \<or> GetBaseUnitsFactor (m_Units calibrated_cell) = 0"
    by simp
  from calibrated_cell_reachable h SetUnits_invalid [OF calibrated_cell_reachable h]
  show ?thesis by blast
qed

text \<open>
  C9: \<open>Average\<close> divides the total by \<open>min m_NumValues m_Size\<close> and has no result
  where that divisor is 0. That is the case after construction and after \<open>Reset\<close>;
  \<open>Average\<close> has a result only if \<open>m_NumValues\<close> is not 0, and it has one after a
  \<open>Reset\<close> followed by an \<open>Add\<close>, as in \<open>ReadAndAverageRawWeight\<close>, which adds before it
  averages.
\<close>

theorem MovingAverage_Average_needs_Add:
  "MovingAverage_Average ma =
     (if min (m_NumValues ma) (m_Size ma) = 0 then Inl DivideByZero
      else Inr (int32_of (cdiv (m_Total ma) (int (min (m_NumValues ma) (m_Size ma))))))
   \<and> MovingAverage_Average (MovingAverage_new n) = Inl DivideByZero
   \<and> MovingAverage_Average (MovingAverage_Reset ma) = Inl DivideByZero
   \<and> (\<not> isl (MovingAverage_Average ma) \<longrightarrow> m_NumValues ma \<noteq> 0)
   \<and> (1 \<le> m_Size ma \<longrightarrow>
        \<not> isl (MovingAverage_Average (snd (MovingAverage_Add v (MovingAverage_Reset ma)))))
   \<and> (1 \<le> m_Size (m_MovingAverage s) \<longrightarrow>
        \<not> isl (ReadAndAverageRawWeight (ResetAverage s)))"
proof -
  have a: "MovingAverage_Average ma =
     (if min (m_NumValues ma) (m_Size ma) = 0 then Inl DivideByZero
      else Inr (int32_of (cdiv (m_Total ma) (int (min (m_NumValues ma) (m_Size ma))))))"
    by (simp add: MovingAverage_Average_def Let_def)
  have b: "MovingAverage_Average (MovingAverage_new n) = Inl DivideByZero"
    by (simp add: MovingAverage_Average_def MovingAverage_new_def MovingAverage_SetSize_def
          MovingAverage_Reset_def MIN_SIZE_def MAX_SIZE_def Let_def)
  have c: "MovingAverage_Average (MovingAverage_Reset ma) = Inl DivideByZero"
    by (simp add: MovingAverage_Average_def MovingAverage_Reset_def)
  have d: "m_NumValues ma \<noteq> 0" if "\<not> isl (MovingAverage_Average ma)"
    using that by (auto simp: MovingAverage_Average_def Let_def split: if_splits)
  have e: "\<not> isl (MovingAverage_Average (snd (MovingAverage_Add w (MovingAverage_Reset m))))"
    if "1 \<le> m_Size m" for w m
    using that
    by (simp add: MovingAverage_Average_def MovingAverage_Add_def MovingAverage_Reset_def
          size_t_of_def Let_def)
  have f: "\<not> isl (ReadAndAverageRawWeight (ResetAverage s))"
    if "1 \<le> m_Size (m_MovingAverage s)"
    using e[OF that, of "fst (ReadARawValue (ResetAverage s))"]
    by (auto simp: ReadAndAverageRawWeight_eq ResetAverage_def split: sum.splits)
  from a b c d e f show ?thesis by blast
qed

theorem MovingAverage_Average_needs_Add_witness:
  "\<not> isl (MovingAverage_Average (snd (MovingAverage_Add 1500 (MovingAverage_new 10))))
   \<and> m_NumValues (snd (MovingAverage_Add 1500 (MovingAverage_new 10))) \<noteq> 0
   \<and> 1 \<le> m_Size (MovingAverage_new 10)
   \<and> \<not> isl (MovingAverage_Average
              (snd (MovingAverage_Add 1500 (MovingAverage_Reset (MovingAverage_new 10)))))
   \<and> 1 \<le> m_Size (m_MovingAverage level_cell)
   \<and> \<not> isl (ReadAndAverageRawWeight (ResetAverage level_cell))"
proof -
  have h1: "\<not> isl (MovingAverage_Average (snd (MovingAverage_Add 1500 (MovingAverage_new 10))))"
    by (simp add: MovingAverage_new_eq first_average)
  have h2: "1 \<le> m_Size (MovingAverage_new 10)"
    by (simp add: MovingAverage_new_eq)
  have h3: "1 \<le> m_Size (m_MovingAverage level_cell)"
    by (simp add: level_cell_def LoadCell_new_def default_filter)
  show ?thesis
    using h1 h2 h3
      MovingAverage_Average_needs_Add
        [of "snd (MovingAverage_Add 1500 (MovingAverage_new 10))" 10 1500 level_cell]
      MovingAverage_Average_needs_Add [of "MovingAverage_new 10" 10 1500 level_cell]
    by simp
qed

text \<open>
  C10: for every batch of at least one sample whose truncated integer mean is not
  positive, \<open>ReadRawAverage\<close> returns 0, having read the throwaway sample and the
  batch. No batch with such a mean passes the test
  \<open>max < avg + avg / 800\<close> and \<open>min > avg - avg / 800\<close>.
\<close>

theorem ReadRawAverage_nonpositive_mean:
  assumes "1 \<le> count" and "batch_mean count s \<le> 0"
  shows "ReadRawAverage count s = Inr (0, s\<lparr>hx_reads := hx_reads s + count + 1\<rparr>)"
  by (simp only: ReadRawAverage_eq[OF assms(1)] if_not_P[OF rejects_nonpos_mean[OF assms]])
     (simp add: uint32_of_def)

theorem ReadRawAverage_nonpositive_mean_witness:
  "(1::nat) \<le> 3 \<and> batch_mean 3 negative_cell \<le> 0 \<and>
   ReadRawAverage 3 negative_cell
     = Inr (0, negative_cell\<lparr>hx_reads := hx_reads negative_cell + 3 + 1\<rparr>)"
proof -
  have h1: "(1::nat) \<le> 3" by simp
  have h2: "batch_mean 3 negative_cell \<le> 0" by code_simp
  show ?thesis
    using h1 h2 ReadRawAverage_nonpositive_mean [OF h1 h2] by simp
qed

end
